theory Spec2Isabelle
  imports Main "HOL-Library.Word"
begin

section \<open>Kubernetes objects handled by the ConfigListener provisioner\<close>

text \<open>
  The objects of \<^verbatim>\<open>config_listener.go\<close>, with the fields the file reads or writes.
  A field that the Go code leaves out of a composite literal has Go's zero value:
  the empty string, the nil map (the empty map here), the nil pointer (\<open>None\<close>), the zero
  time (\<open>0\<close>).
\<close>

type_synonym int32 = "32 word"
type_synonym labels = "string \<rightharpoonup> string"

record ObjectMeta =
  Name :: string
  Namespace :: string
  Labels :: labels
  CreationTimestamp :: nat

definition IsZero :: "nat \<Rightarrow> bool" where
  "IsZero t = (t = 0)"

record Container =
  Container_Name :: string
  Image :: string
  Args :: "string list"

record PodSpec =
  Containers :: "Container list"
  ServiceAccountName :: string

record PodTemplateSpec =
  Template_ObjectMeta :: ObjectMeta
  Template_Spec :: PodSpec

record LabelSelector =
  MatchLabels :: labels

record DeploymentSpec =
  Replicas :: "int32 option"
  Selector :: "LabelSelector option"
  Template :: PodTemplateSpec

record Deployment =
  Deployment_ObjectMeta :: ObjectMeta
  Spec :: DeploymentSpec

record PolicyRule =
  APIGroups :: "string list"
  Resources :: "string list"
  Verbs :: "string list"

record RoleRef =
  RoleRef_APIGroup :: string
  RoleRef_Kind :: string
  RoleRef_Name :: string

record Subject =
  Subject_Kind :: string
  Subject_Name :: string
  Subject_Namespace :: string

record ServiceAccount =
  ServiceAccount_ObjectMeta :: ObjectMeta

record Role =
  Role_ObjectMeta :: ObjectMeta
  Rules :: "PolicyRule list"

record RoleBinding =
  RoleBinding_ObjectMeta :: ObjectMeta
  RoleBinding_RoleRef :: RoleRef
  Subjects :: "Subject list"

text \<open>\<^verbatim>\<open>client.Object\<close>: the four object types the file hands to the store.\<close>

datatype Object =
  ServiceAccountObj ServiceAccount
| RoleObj Role
| RoleBindingObj RoleBinding
| DeploymentObj Deployment

text \<open>The empty typed objects that \<^verbatim>\<open>RemoveConfigListener\<close> passes to Delete carry a type only.\<close>

datatype kind = DeploymentKind | RoleKind | RoleBindingKind | ServiceAccountKind

fun kind_of :: "Object \<Rightarrow> kind" where
  "kind_of (ServiceAccountObj _) = ServiceAccountKind"
| "kind_of (RoleObj _) = RoleKind"
| "kind_of (RoleBindingObj _) = RoleBindingKind"
| "kind_of (DeploymentObj _) = DeploymentKind"

fun meta_of :: "Object \<Rightarrow> ObjectMeta" where
  "meta_of (ServiceAccountObj x) = ServiceAccount_ObjectMeta x"
| "meta_of (RoleObj x) = Role_ObjectMeta x"
| "meta_of (RoleBindingObj x) = RoleBinding_ObjectMeta x"
| "meta_of (DeploymentObj x) = Deployment_ObjectMeta x"

text \<open>
  Errors are values. \<open>NotFound resource name\<close> is what \<^verbatim>\<open>errors.NewNotFound\<close> builds;
  every other failure of a collaborator is an \<open>OtherError\<close>.
\<close>

datatype error = NotFound string string | OtherError string

fun IsNotFound :: "error \<Rightarrow> bool" where
  "IsNotFound (NotFound _ _) = True"
| "IsNotFound (OtherError _) = False"

text \<open>The option functions of the pipeline that the file passes to the store.\<close>

datatype opt = RetryOnErr | IgnoreNotFound

definition emptyObjectMeta :: ObjectMeta where
  "emptyObjectMeta = \<lparr>Name = [], Namespace = [], Labels = Map.empty, CreationTimestamp = 0\<rparr>"

definition emptyDeploymentSpec :: DeploymentSpec where
  "emptyDeploymentSpec =
     \<lparr>Replicas = None, Selector = None,
      Template = \<lparr>Template_ObjectMeta = emptyObjectMeta,
                  Template_Spec = \<lparr>Containers = [], ServiceAccountName = []\<rparr>\<rparr>\<rparr>"

section \<open>The parent resource and the collaborators\<close>

text \<open>
  \<^verbatim>\<open>ispnv1.Infinispan\<close> embeds an ObjectMeta (\<^verbatim>\<open>i.Name\<close>, \<^verbatim>\<open>i.Namespace\<close>). Its methods
  \<^verbatim>\<open>IsConfigListenerEnabled\<close>, \<^verbatim>\<open>GetConfigListenerName\<close> and \<^verbatim>\<open>PodLabels\<close> live in the
  api package; the provisioner only consumes their results, so each is a field holding
  the value the method returns.
\<close>

record Infinispan =
  Infinispan_ObjectMeta :: ObjectMeta
  IsConfigListenerEnabled :: bool
  GetConfigListenerName :: string
  PodLabels :: labels

text \<open>
  Every call the file makes on a collaborator, with its arguments. The closure handed
  to CreateOrPatch is a function from the deployment the store loaded to either an
  error or the mutated deployment.
\<close>

datatype call =
  CallGetOperatorImage
| CallLoad string
| CallCreate Object bool "opt list"
| CallUpdate Object "opt list"
| CallDelete string kind "opt list"
| CallCreateOrPatch Deployment bool "Deployment \<Rightarrow> error + Deployment"

text \<open>
  The collaborators behind \<^verbatim>\<open>pipeline.Context\<close> and the constants of other packages,
  taken as parameters: the resource store (\<^verbatim>\<open>ctx.Resources()\<close>), the lookup of the
  operator's own image (\<^verbatim>\<open>kube.GetOperatorImage\<close>), the image override
  \<^verbatim>\<open>constants.ConfigListenerImageName\<close> and the two API group names. The store's state
  is the type parameter; every operation may change it and may fail.
\<close>

record 's Context =
  ConfigListenerImageName :: string
  v2alpha1_Group :: string
  ispnv1_Group :: string
  GetOperatorImage :: "'s \<Rightarrow> (error + string) \<times> 's"
  Load :: "string \<Rightarrow> 's \<Rightarrow> (error + Deployment) \<times> 's"
  Create :: "Object \<Rightarrow> bool \<Rightarrow> opt list \<Rightarrow> 's \<Rightarrow> error option \<times> 's"
  Update :: "Object \<Rightarrow> opt list \<Rightarrow> 's \<Rightarrow> error option \<times> 's"
  Delete :: "string \<Rightarrow> kind \<Rightarrow> opt list \<Rightarrow> 's \<Rightarrow> error option \<times> 's"
  CreateOrPatch ::
    "Deployment \<Rightarrow> bool \<Rightarrow> (Deployment \<Rightarrow> error + Deployment) \<Rightarrow> 's \<Rightarrow> error option \<times> 's"

datatype logentry = LogError error string | LogInfo string int32

text \<open>
  What one invocation can observe and change: the store, the calls made so far with the
  error each returned (\<open>None\<close> for nil), the log, and the errors passed to
  \<^verbatim>\<open>ctx.Requeue\<close>.
\<close>

record 's world =
  store :: 's
  calls :: "(call \<times> error option) list"
  logs :: "logentry list"
  requeued :: "error list"

definition err_of :: "error + 'a \<Rightarrow> error option" where
  "err_of r = (case r of Inl e \<Rightarrow> Some e | Inr _ \<Rightarrow> None)"

definition record_call :: "call \<Rightarrow> error option \<Rightarrow> 's \<Rightarrow> 's world \<Rightarrow> 's world" where
  "record_call c r s w = w\<lparr>store := s, calls := calls w @ [(c, r)]\<rparr>"

definition call_GetOperatorImage :: "'s Context \<Rightarrow> 's world \<Rightarrow> (error + string) \<times> 's world" where
  "call_GetOperatorImage ctx w =
     (case GetOperatorImage ctx (store w) of
        (r, s) \<Rightarrow> (r, record_call CallGetOperatorImage (err_of r) s w))"

definition call_Load :: "'s Context \<Rightarrow> string \<Rightarrow> 's world \<Rightarrow> (error + Deployment) \<times> 's world" where
  "call_Load ctx name w =
     (case Load ctx name (store w) of
        (r, s) \<Rightarrow> (r, record_call (CallLoad name) (err_of r) s w))"

definition call_Create ::
  "'s Context \<Rightarrow> Object \<Rightarrow> bool \<Rightarrow> opt list \<Rightarrow> 's world \<Rightarrow> error option \<times> 's world" where
  "call_Create ctx obj owner opts w =
     (case Create ctx obj owner opts (store w) of
        (r, s) \<Rightarrow> (r, record_call (CallCreate obj owner opts) r s w))"

definition call_Update ::
  "'s Context \<Rightarrow> Object \<Rightarrow> opt list \<Rightarrow> 's world \<Rightarrow> error option \<times> 's world" where
  "call_Update ctx obj opts w =
     (case Update ctx obj opts (store w) of
        (r, s) \<Rightarrow> (r, record_call (CallUpdate obj opts) r s w))"

definition call_Delete ::
  "'s Context \<Rightarrow> string \<Rightarrow> kind \<Rightarrow> opt list \<Rightarrow> 's world \<Rightarrow> error option \<times> 's world" where
  "call_Delete ctx name k opts w =
     (case Delete ctx name k opts (store w) of
        (r, s) \<Rightarrow> (r, record_call (CallDelete name k opts) r s w))"

definition call_CreateOrPatch ::
  "'s Context \<Rightarrow> Deployment \<Rightarrow> bool \<Rightarrow> (Deployment \<Rightarrow> error + Deployment) \<Rightarrow> 's world
     \<Rightarrow> error option \<times> 's world" where
  "call_CreateOrPatch ctx obj owner f w =
     (case CreateOrPatch ctx obj owner f (store w) of
        (r, s) \<Rightarrow> (r, record_call (CallCreateOrPatch obj owner f) r s w))"

definition Log_Error :: "error \<Rightarrow> string \<Rightarrow> 's world \<Rightarrow> 's world" where
  "Log_Error err msg w = w\<lparr>logs := logs w @ [LogError err msg]\<rparr>"

definition Log_Info :: "string \<Rightarrow> int32 \<Rightarrow> 's world \<Rightarrow> 's world" where
  "Log_Info msg v w = w\<lparr>logs := logs w @ [LogInfo msg v]\<rparr>"

definition Requeue :: "error \<Rightarrow> 's world \<Rightarrow> 's world" where
  "Requeue err w = w\<lparr>requeued := requeued w @ [err]\<rparr>"

text \<open>
  Modelled from the spec: \<^verbatim>\<open>kube.GetContainer\<close> (pkg/kubernetes, not in the file) locates
  the named container inside a pod spec and yields nil when there is none.
\<close>

definition GetContainer :: "string \<Rightarrow> PodSpec \<Rightarrow> Container option" where
  "GetContainer name spec = find (\<lambda>c. Container_Name c = name) (Containers spec)"

section \<open>config\_listener.go\<close>

definition InfinispanListenerContainer :: string where
  "InfinispanListenerContainer = ''infinispan-listener''"

subsection \<open>ScaleConfigListener\<close>

text \<open>The closure of lines 204--210, applied to the deployment the store loaded.\<close>

definition scaleMutate :: "int32 \<Rightarrow> Deployment \<Rightarrow> error + Deployment" where
  "scaleMutate replicas deployment =
     (if IsZero (CreationTimestamp (Deployment_ObjectMeta deployment))
      then Inl (NotFound ''deployment'' (Name (Deployment_ObjectMeta deployment)))
      else Inr (deployment\<lparr>Spec := (Spec deployment)\<lparr>Replicas := Some replicas\<rparr>\<rparr>))"

definition scaleTarget :: "Infinispan \<Rightarrow> Deployment" where
  "scaleTarget i =
     \<lparr>Deployment_ObjectMeta =
        \<lparr>Name = GetConfigListenerName i, Namespace = Namespace (Infinispan_ObjectMeta i),
         Labels = Map.empty, CreationTimestamp = 0\<rparr>,
      Spec = emptyDeploymentSpec\<rparr>"

definition ScaleConfigListener ::
  "int32 \<Rightarrow> Infinispan \<Rightarrow> 's Context \<Rightarrow> 's world \<Rightarrow> error option \<times> 's world" where
  "ScaleConfigListener replicas i ctx w =
     (if \<not> IsConfigListenerEnabled i then (None, w)
      else
        case call_CreateOrPatch ctx (scaleTarget i) False (scaleMutate replicas)
               (Log_Info ''Scaling ConfigListener deployment'' replicas w) of
          (Some err, w') \<Rightarrow> (Some err, Log_Error err ''unable to scale ConfigListener Deployment'' w')
        | (None, w') \<Rightarrow> (None, w'))"

subsection \<open>RemoveConfigListener\<close>

definition removeResources :: "kind list" where
  "removeResources = [DeploymentKind, RoleKind, RoleBindingKind, ServiceAccountKind]"

text \<open>The loop of lines 183--187: the first error returned by Delete ends it.\<close>

fun removeLoop :: "'s Context \<Rightarrow> string \<Rightarrow> kind list \<Rightarrow> 's world \<Rightarrow> 's world" where
  "removeLoop ctx name [] w = w"
| "removeLoop ctx name (obj # resources) w =
     (case call_Delete ctx name obj [RetryOnErr, IgnoreNotFound] w of
        (Some err, w') \<Rightarrow> w'
      | (None, w') \<Rightarrow> removeLoop ctx name resources w')"

definition RemoveConfigListener :: "Infinispan \<Rightarrow> 's Context \<Rightarrow> 's world \<Rightarrow> 's world" where
  "RemoveConfigListener i ctx w = removeLoop ctx (GetConfigListenerName i) removeResources w"

subsection \<open>ConfigListener\<close>

definition listenerObjectMeta :: "Infinispan \<Rightarrow> ObjectMeta" where
  "listenerObjectMeta i =
     \<lparr>Name = GetConfigListenerName i, Namespace = Namespace (Infinispan_ObjectMeta i),
      Labels = Map.empty, CreationTimestamp = 0\<rparr>"

text \<open>The closure of lines 65--71.\<close>

definition createOrUpdate ::
  "'s Context \<Rightarrow> bool \<Rightarrow> Object \<Rightarrow> 's world \<Rightarrow> error option \<times> 's world" where
  "createOrUpdate ctx listenerExists obj w =
     (if listenerExists then call_Update ctx obj [RetryOnErr] w
      else call_Create ctx obj True [RetryOnErr] w)"

definition listenerServiceAccount :: "Infinispan \<Rightarrow> ServiceAccount" where
  "listenerServiceAccount i = \<lparr>ServiceAccount_ObjectMeta = listenerObjectMeta i\<rparr>"

definition listenerRole :: "'s Context \<Rightarrow> Infinispan \<Rightarrow> Role" where
  "listenerRole ctx i =
     \<lparr>Role_ObjectMeta = listenerObjectMeta i,
      Rules =
        [\<lparr>APIGroups = [v2alpha1_Group ctx], Resources = [''caches''],
          Verbs = [''create'', ''delete'', ''get'', ''list'', ''patch'', ''update'', ''watch'']\<rparr>,
         \<lparr>APIGroups = [ispnv1_Group ctx], Resources = [''infinispans''], Verbs = [''get'']\<rparr>,
         \<lparr>APIGroups = [[]], Resources = [''pods''], Verbs = [''list'']\<rparr>,
         \<lparr>APIGroups = [[]], Resources = [''pods/exec''], Verbs = [''create'']\<rparr>,
         \<lparr>APIGroups = [[]], Resources = [''secrets''], Verbs = [''get'']\<rparr>]\<rparr>"

definition listenerRoleBinding :: "Infinispan \<Rightarrow> RoleBinding" where
  "listenerRoleBinding i =
     \<lparr>RoleBinding_ObjectMeta = listenerObjectMeta i,
      RoleBinding_RoleRef =
        \<lparr>RoleRef_APIGroup = ''rbac.authorization.k8s.io'', RoleRef_Kind = ''Role'',
         RoleRef_Name = GetConfigListenerName i\<rparr>,
      Subjects =
        [\<lparr>Subject_Kind = ''ServiceAccount'', Subject_Name = GetConfigListenerName i,
          Subject_Namespace = Namespace (Infinispan_ObjectMeta i)\<rparr>]\<rparr>"

definition listenerLabels :: "Infinispan \<Rightarrow> labels" where
  "listenerLabels i = (PodLabels i)(''app'' \<mapsto> ''infinispan-config-listener-pod'')"

definition listenerDeployment :: "Infinispan \<Rightarrow> string \<Rightarrow> Deployment" where
  "listenerDeployment i configListenerImage =
     \<lparr>Deployment_ObjectMeta = listenerObjectMeta i,
      Spec =
        \<lparr>Replicas = None,
         Selector = Some \<lparr>MatchLabels = listenerLabels i\<rparr>,
         Template =
           \<lparr>Template_ObjectMeta =
              \<lparr>Name = [], Namespace = [], Labels = listenerLabels i, CreationTimestamp = 0\<rparr>,
            Template_Spec =
              \<lparr>Containers =
                 [\<lparr>Container_Name = InfinispanListenerContainer,
                   Image = configListenerImage,
                   Args = [''listener'', ''-namespace'', Namespace (Infinispan_ObjectMeta i),
                           ''-cluster'', Name (Infinispan_ObjectMeta i)]\<rparr>],
               ServiceAccountName = GetConfigListenerName i\<rparr>\<rparr>\<rparr>\<rparr>"

text \<open>
  Lines 65--172: the four objects are built and handed to \<open>createOrUpdate\<close> one after
  the other; an error returned by a step ends the function.
\<close>

definition syncBundle :: "Infinispan \<Rightarrow> 's Context \<Rightarrow> string \<Rightarrow> bool \<Rightarrow> 's world \<Rightarrow> 's world" where
  "syncBundle i ctx configListenerImage listenerExists w =
     (case createOrUpdate ctx listenerExists (ServiceAccountObj (listenerServiceAccount i)) w of
        (Some err, w1) \<Rightarrow> w1
      | (None, w1) \<Rightarrow>
     (case createOrUpdate ctx listenerExists (RoleObj (listenerRole ctx i)) w1 of
        (Some err, w2) \<Rightarrow> w2
      | (None, w2) \<Rightarrow>
     (case createOrUpdate ctx listenerExists (RoleBindingObj (listenerRoleBinding i)) w2 of
        (Some err, w3) \<Rightarrow> w3
      | (None, w3) \<Rightarrow>
     (case createOrUpdate ctx listenerExists
             (DeploymentObj (listenerDeployment i configListenerImage)) w3 of
        (Some err, w4) \<Rightarrow> w4
      | (None, w4) \<Rightarrow> w4))))"

text \<open>
  Lines 49--63: the deployment is loaded; when it exists, has the listener container and
  that container runs the wanted image, the function returns here, after scaling a
  deployment of zero replicas back to one.
\<close>

definition reconcileListener :: "Infinispan \<Rightarrow> 's Context \<Rightarrow> string \<Rightarrow> 's world \<Rightarrow> 's world" where
  "reconcileListener i ctx configListenerImage w =
     (case call_Load ctx (GetConfigListenerName i) w of
        (Inl err, w1) \<Rightarrow> syncBundle i ctx configListenerImage False w1
      | (Inr deployment, w1) \<Rightarrow>
          (case GetContainer InfinispanListenerContainer (Template_Spec (Template (Spec deployment))) of
             None \<Rightarrow> syncBundle i ctx configListenerImage True w1
           | Some container \<Rightarrow>
               if Image container = configListenerImage then
                 (if Replicas (Spec deployment) = Some 0 then
                    (case ScaleConfigListener 1 i ctx w1 of
                       (Some err, w2) \<Rightarrow> Requeue err w2
                     | (None, w2) \<Rightarrow> w2)
                  else w1)
               else syncBundle i ctx configListenerImage True w1))"

text \<open>Lines 26--38: the override if it is set, the operator's own image otherwise.\<close>

definition resolveImage :: "'s Context \<Rightarrow> 's world \<Rightarrow> (error + string) \<times> 's world" where
  "resolveImage ctx w =
     (if ConfigListenerImageName ctx \<noteq> [] then (Inr (ConfigListenerImageName ctx), w)
      else call_GetOperatorImage ctx w)"

definition ConfigListener :: "Infinispan \<Rightarrow> 's Context \<Rightarrow> 's world \<Rightarrow> 's world" where
  "ConfigListener i ctx w =
     (if \<not> IsConfigListenerEnabled i then RemoveConfigListener i ctx w
      else
        case resolveImage ctx w of
          (Inl err, w1) \<Rightarrow>
            Requeue err (Log_Error err ''unable to create ConfigListener deployment'' w1)
        | (Inr configListenerImage, w1) \<Rightarrow> reconcileListener i ctx configListenerImage w1)"

section \<open>The store operations whose code is not in the file\<close>

text \<open>
  Modelled from the spec: the store's Delete (pkg/reconcile/pipeline, not in the file),
  "Delete(name, type) -> success | (NotFoundError treated as success) | OtherError".
  It runs the client's delete; a NotFound answer counts as success, which the file asks
  for with the option \<open>IgnoreNotFound\<close>.
\<close>

definition Resources_Delete ::
  "(string \<Rightarrow> kind \<Rightarrow> 's \<Rightarrow> error option \<times> 's) \<Rightarrow>
     string \<Rightarrow> kind \<Rightarrow> opt list \<Rightarrow> 's \<Rightarrow> error option \<times> 's" where
  "Resources_Delete clientDelete name k opts s =
     (case clientDelete name k s of
        (Some e, s') \<Rightarrow>
          if IgnoreNotFound \<in> set opts \<and> IsNotFound e then (None, s') else (Some e, s')
      | (None, s') \<Rightarrow> (None, s'))"

text \<open>
  Modelled from the spec: the store's CreateOrPatch (pkg/reconcile/pipeline, not in the
  file), "loads-or-creates, invokes a caller-supplied mutation closure, and persists the
  merged result; the closure may itself signal NotFound to abort without creating".
  The client's read does not change the store; an error of the closure is returned
  before anything is persisted; a read that fails otherwise is an OtherError.
\<close>

definition Resources_CreateOrPatch ::
  "(Deployment \<Rightarrow> 's \<Rightarrow> error + Deployment) \<Rightarrow>
   (Deployment \<Rightarrow> 's \<Rightarrow> error option \<times> 's) \<Rightarrow>
   (Deployment \<Rightarrow> 's \<Rightarrow> error option \<times> 's) \<Rightarrow>
     Deployment \<Rightarrow> bool \<Rightarrow> (Deployment \<Rightarrow> error + Deployment) \<Rightarrow> 's \<Rightarrow> error option \<times> 's" where
  "Resources_CreateOrPatch clientGet clientCreate clientPatch obj setOwner mutate s =
     (case clientGet obj s of
        Inr loaded \<Rightarrow>
          (case mutate loaded of
             Inl e \<Rightarrow> (Some e, s)
           | Inr obj' \<Rightarrow> clientPatch obj' s)
      | Inl e \<Rightarrow>
          if IsNotFound e then
            (case mutate obj of
               Inl e' \<Rightarrow> (Some e', s)
             | Inr obj' \<Rightarrow> clientCreate obj' s)
          else (Some e, s))"

section \<open>An in-memory store\<close>

text \<open>
  A store that can be run: the objects of one namespace by type and name, and for each
  type the error (if any) with which a write or delete of that type fails.
\<close>

type_synonym cluster = "kind \<times> string \<rightharpoonup> Object"

definition memGet :: "Deployment \<Rightarrow> cluster \<Rightarrow> error + Deployment" where
  "memGet obj s =
     (case s (DeploymentKind, Name (Deployment_ObjectMeta obj)) of
        Some (DeploymentObj d) \<Rightarrow> Inr d
      | _ \<Rightarrow> Inl (NotFound ''deployment'' (Name (Deployment_ObjectMeta obj))))"

definition memLoad :: "string \<Rightarrow> cluster \<Rightarrow> (error + Deployment) \<times> cluster" where
  "memLoad name s =
     (case s (DeploymentKind, name) of
        Some (DeploymentObj d) \<Rightarrow> (Inr d, s)
      | _ \<Rightarrow> (Inl (NotFound ''deployment'' name), s))"

definition memPut :: "(kind \<Rightarrow> error option) \<Rightarrow> Object \<Rightarrow> cluster \<Rightarrow> error option \<times> cluster" where
  "memPut fails obj s =
     (case fails (kind_of obj) of
        Some e \<Rightarrow> (Some e, s)
      | None \<Rightarrow> (None, s((kind_of obj, Name (meta_of obj)) \<mapsto> obj)))"

definition memDelete ::
  "(kind \<Rightarrow> error option) \<Rightarrow> string \<Rightarrow> kind \<Rightarrow> cluster \<Rightarrow> error option \<times> cluster" where
  "memDelete fails name k s =
     (case fails k of
        Some e \<Rightarrow> (Some e, s)
      | None \<Rightarrow>
          (case s (k, name) of
             None \<Rightarrow> (Some (NotFound ''object'' name), s)
           | Some _ \<Rightarrow> (None, s((k, name) := None))))"

definition memContext ::
  "string \<Rightarrow> error + string \<Rightarrow> (kind \<Rightarrow> error option) \<Rightarrow> cluster Context" where
  "memContext override operatorImage fails =
     \<lparr>ConfigListenerImageName = override,
      v2alpha1_Group = ''infinispan.org'',
      ispnv1_Group = ''infinispan.org'',
      GetOperatorImage = (\<lambda>s. (operatorImage, s)),
      Load = memLoad,
      Create = (\<lambda>obj owner opts. memPut fails obj),
      Update = (\<lambda>obj opts. memPut fails obj),
      Delete = Resources_Delete (memDelete fails),
      CreateOrPatch =
        Resources_CreateOrPatch memGet
          (\<lambda>d. memPut fails (DeploymentObj d)) (\<lambda>d. memPut fails (DeploymentObj d))\<rparr>"

definition emptyWorld :: "'s \<Rightarrow> 's world" where
  "emptyWorld s = \<lparr>store = s, calls = [], logs = [], requeued = []\<rparr>"

definition exampleInfinispan :: "bool \<Rightarrow> Infinispan" where
  "exampleInfinispan enabled =
     \<lparr>Infinispan_ObjectMeta =
        \<lparr>Name = ''example'', Namespace = ''ns'', Labels = Map.empty, CreationTimestamp = 1\<rparr>,
      IsConfigListenerEnabled = enabled,
      GetConfigListenerName = ''example-config-listener'',
      PodLabels = [''clusterName'' \<mapsto> ''example'']\<rparr>"

text \<open>A deployment as the cluster holds it once created: with a creation time.\<close>

definition runningDeployment :: "Infinispan \<Rightarrow> string \<Rightarrow> int32 option \<Rightarrow> Deployment" where
  "runningDeployment i img replicas =
     (listenerDeployment i img)
       \<lparr>Deployment_ObjectMeta := (listenerObjectMeta i)\<lparr>CreationTimestamp := 1\<rparr>,
        Spec := (Spec (listenerDeployment i img))\<lparr>Replicas := replicas\<rparr>\<rparr>"

definition clusterWith :: "Deployment \<Rightarrow> cluster" where
  "clusterWith d = [(DeploymentKind, Name (Deployment_ObjectMeta d)) \<mapsto> DeploymentObj d]"

definition noFailures :: "kind \<Rightarrow> error option" where
  "noFailures k = None"

definition failsOn :: "kind \<Rightarrow> error \<Rightarrow> kind \<Rightarrow> error option" where
  "failsOn k e k' = (if k' = k then Some e else None)"

definition exampleContext :: "cluster Context" where
  "exampleContext = memContext ''registry/listener:1'' (Inr ''registry/operator:1'') noFailures"

definition exampleWorld :: "int32 option \<Rightarrow> cluster world" where
  "exampleWorld replicas =
     emptyWorld (clusterWith (runningDeployment (exampleInfinispan True) ''registry/listener:1'' replicas))"

definition forbiddenContext :: "cluster Context" where
  "forbiddenContext =
     memContext ''registry/listener:1'' (Inr ''registry/operator:1'')
       (failsOn RoleKind (OtherError ''forbidden''))"

definition staleWorld :: "cluster world" where
  "staleWorld =
     emptyWorld (clusterWith
       (runningDeployment (exampleInfinispan True) ''registry/listener:0'' (Some 1)))"

definition unreachableContext :: "cluster Context" where
  "unreachableContext =
     exampleContext\<lparr>Load := (\<lambda>name s. (Inl (OtherError ''connection refused''), s))\<rparr>"

definition lookupFailsContext :: "cluster Context" where
  "lookupFailsContext = memContext [] (Inl (OtherError ''operator pod not found'')) noFailures"

section \<open>The calls of one invocation\<close>

text \<open>The calls that were added to the world \<open>w\<close> on the way to \<open>w'\<close>.\<close>

definition newCalls :: "'s world \<Rightarrow> 's world \<Rightarrow> (call \<times> error option) list" where
  "newCalls w w' = drop (length (calls w)) (calls w')"

text \<open>
  The four steps in the order of the spec, each a Create or an Update of the object
  built for it.
\<close>

definition writeCall :: "bool \<Rightarrow> Object \<Rightarrow> call" where
  "writeCall listenerExists obj =
     (if listenerExists then CallUpdate obj [RetryOnErr] else CallCreate obj True [RetryOnErr])"

definition chainObjects :: "Infinispan \<Rightarrow> 's Context \<Rightarrow> string \<Rightarrow> Object list" where
  "chainObjects i ctx img =
     [ServiceAccountObj (listenerServiceAccount i), RoleObj (listenerRole ctx i),
      RoleBindingObj (listenerRoleBinding i), DeploymentObj (listenerDeployment i img)]"

definition chainCalls :: "Infinispan \<Rightarrow> 's Context \<Rightarrow> string \<Rightarrow> bool \<Rightarrow> call list" where
  "chainCalls i ctx img listenerExists = map (writeCall listenerExists) (chainObjects i ctx img)"

definition deleteCalls :: "string \<Rightarrow> call list" where
  "deleteCalls name =
     map (\<lambda>k. CallDelete name k [RetryOnErr, IgnoreNotFound])
       [DeploymentKind, RoleKind, RoleBindingKind, ServiceAccountKind]"

text \<open>
  \<open>failFast expected t\<close>: the calls \<open>t\<close> are the first steps of \<open>expected\<close>, in that order
  and at least one; every step before the last returned nil; and the steps stop before
  the end of \<open>expected\<close> only when the last one made returned an error.
\<close>

definition failFast :: "call list \<Rightarrow> (call \<times> error option) list \<Rightarrow> bool" where
  "failFast expected t \<longleftrightarrow>
     t \<noteq> [] \<and> length t \<le> length expected \<and> map fst t = take (length t) expected \<and>
     (\<forall>r \<in> set (map snd (butlast t)). r = None) \<and>
     (length t < length expected \<longrightarrow> snd (last t) \<noteq> None)"

text \<open>The object a call asks the store to write, if it is a Create or an Update.\<close>

fun written :: "call \<Rightarrow> Object option" where
  "written (CallCreate obj _ _) = Some obj"
| "written (CallUpdate obj _) = Some obj"
| "written _ = None"

fun writtenDeployments :: "(call \<times> error option) list \<Rightarrow> Deployment list" where
  "writtenDeployments [] = []"
| "writtenDeployments ((c, r) # t) =
     (case written c of
        Some (DeploymentObj d) \<Rightarrow> d # writtenDeployments t
      | _ \<Rightarrow> writtenDeployments t)"

text \<open>
  "imageMatches" of the spec's state machine: the existing deployment has the named
  listener container and that container's image is the wanted one.
\<close>

definition imageMatches :: "Deployment \<Rightarrow> string \<Rightarrow> bool" where
  "imageMatches deployment img =
     (case GetContainer InfinispanListenerContainer (Template_Spec (Template (Spec deployment))) of
        None \<Rightarrow> False
      | Some container \<Rightarrow> Image container = img)"

section \<open>What each part of the file calls\<close>

lemma newCalls_append: "calls w' = calls w @ t \<Longrightarrow> newCalls w w' = t"
  by (simp add: newCalls_def)

lemma createOrUpdate_calls:
  "createOrUpdate ctx ex obj w = (r, w') \<Longrightarrow>
     calls w' = calls w @ [(writeCall ex obj, r)] \<and> logs w' = logs w \<and> requeued w' = requeued w"
  by (auto simp: createOrUpdate_def call_Update_def call_Create_def record_call_def writeCall_def
      split: prod.splits if_splits)

lemma ConfigListener_chain:
  assumes "IsConfigListenerEnabled i"
      and "resolveImage ctx w = (Inr img, w1)"
      and "call_Load ctx (GetConfigListenerName i) w1 = (r, w2)"
      and "case r of Inl e \<Rightarrow> True | Inr d \<Rightarrow> \<not> imageMatches d img"
  shows "ConfigListener i ctx w = syncBundle i ctx img (err_of r = None) w2"
  using assms
  by (auto simp: ConfigListener_def reconcileListener_def imageMatches_def err_of_def
      split: sum.splits option.splits)

lemma ConfigListener_fast:
  assumes "IsConfigListenerEnabled i"
      and "resolveImage ctx w = (Inr img, w1)"
      and "call_Load ctx (GetConfigListenerName i) w1 = (Inr d, w2)"
      and "imageMatches d img"
  shows "ConfigListener i ctx w =
           (if Replicas (Spec d) = Some 0 then
              (case ScaleConfigListener 1 i ctx w2 of
                 (Some err, w3) \<Rightarrow> Requeue err w3
               | (None, w3) \<Rightarrow> w3)
            else w2)"
  using assms
  by (auto simp: ConfigListener_def reconcileListener_def imageMatches_def
      split: sum.splits option.splits)

lemma ScaleConfigListener_enabled:
  assumes "IsConfigListenerEnabled i"
      and "ScaleConfigListener replicas i ctx w = (r, w')"
  shows "calls w' = calls w @ [(CallCreateOrPatch (scaleTarget i) False (scaleMutate replicas), r)]
         \<and> (r, store w') = CreateOrPatch ctx (scaleTarget i) False (scaleMutate replicas) (store w)
         \<and> logs w' = logs w @ LogInfo ''Scaling ConfigListener deployment'' replicas #
              (case r of None \<Rightarrow> [] | Some e \<Rightarrow> [LogError e ''unable to scale ConfigListener Deployment''])
         \<and> requeued w' = requeued w"
  using assms
  by (auto simp: ScaleConfigListener_def call_CreateOrPatch_def record_call_def Log_Info_def
      Log_Error_def split: prod.splits option.splits)

lemma resolveImage_calls:
  "resolveImage ctx w = (r, w1) \<Longrightarrow>
     calls w1 = calls w @ (if ConfigListenerImageName ctx \<noteq> [] then [] else [(CallGetOperatorImage, err_of r)])
     \<and> logs w1 = logs w \<and> requeued w1 = requeued w"
  by (auto simp: resolveImage_def call_GetOperatorImage_def record_call_def split: prod.splits if_splits)

lemma call_Load_calls:
  "call_Load ctx name w = (r, w') \<Longrightarrow>
     calls w' = calls w @ [(CallLoad name, err_of r)] \<and> logs w' = logs w \<and> requeued w' = requeued w"
  by (auto simp: call_Load_def record_call_def split: prod.splits)

lemma GetContainer_imageMatches:
  "GetContainer InfinispanListenerContainer (Template_Spec (Template (Spec d))) = Some c \<Longrightarrow>
     Image c = img \<Longrightarrow> imageMatches d img"
  by (simp add: imageMatches_def)

lemma syncBundle_cases:
  "calls (syncBundle i ctx img ex w) = calls w @ newCalls w (syncBundle i ctx img ex w) \<and>
   logs (syncBundle i ctx img ex w) = logs w \<and>
   requeued (syncBundle i ctx img ex w) = requeued w \<and>
   ((\<exists>e. newCalls w (syncBundle i ctx img ex w) =
         [(writeCall ex (ServiceAccountObj (listenerServiceAccount i)), Some e)]) \<or>
    (\<exists>e. newCalls w (syncBundle i ctx img ex w) =
         [(writeCall ex (ServiceAccountObj (listenerServiceAccount i)), None),
          (writeCall ex (RoleObj (listenerRole ctx i)), Some e)]) \<or>
    (\<exists>e. newCalls w (syncBundle i ctx img ex w) =
         [(writeCall ex (ServiceAccountObj (listenerServiceAccount i)), None),
          (writeCall ex (RoleObj (listenerRole ctx i)), None),
          (writeCall ex (RoleBindingObj (listenerRoleBinding i)), Some e)]) \<or>
    (\<exists>r. newCalls w (syncBundle i ctx img ex w) =
         [(writeCall ex (ServiceAccountObj (listenerServiceAccount i)), None),
          (writeCall ex (RoleObj (listenerRole ctx i)), None),
          (writeCall ex (RoleBindingObj (listenerRoleBinding i)), None),
          (writeCall ex (DeploymentObj (listenerDeployment i img)), r)]))"
  unfolding syncBundle_def newCalls_def
  by (auto split: prod.splits option.splits dest!: createOrUpdate_calls)

lemma writeCall_written [simp]: "written (writeCall ex obj) = Some obj"
  by (simp add: writeCall_def)

lemma writeCall_inject [simp]: "writeCall ex obj = writeCall ex obj' \<longleftrightarrow> obj = obj'"
  by (simp add: writeCall_def)

lemma syncBundle_failFast:
  "failFast (chainCalls i ctx img ex) (newCalls w (syncBundle i ctx img ex w))"
  using syncBundle_cases [of i ctx img ex w]
  by (auto simp: failFast_def chainCalls_def chainObjects_def)

lemma syncBundle_role_fails:
  assumes "(writeCall ex (RoleObj (listenerRole ctx i)), Some e) \<in> set (newCalls w (syncBundle i ctx img ex w))"
  shows "newCalls w (syncBundle i ctx img ex w) =
           [(writeCall ex (ServiceAccountObj (listenerServiceAccount i)), None),
            (writeCall ex (RoleObj (listenerRole ctx i)), Some e)]"
  using syncBundle_cases [of i ctx img ex w] assms
  by (auto simp: writeCall_def split: if_splits)

lemma syncBundle_written:
  "set (writtenDeployments (newCalls w (syncBundle i ctx img ex w))) \<subseteq> {listenerDeployment i img}"
  using syncBundle_cases [of i ctx img ex w]
  by (auto simp: writeCall_def split: if_splits)

lemma ConfigListener_resolve_error:
  assumes "IsConfigListenerEnabled i" and "resolveImage ctx w = (Inl err, w1)"
  shows "ConfigListener i ctx w =
           Requeue err (Log_Error err ''unable to create ConfigListener deployment'' w1)"
  using assms by (simp add: ConfigListener_def)

lemma ConfigListener_resolved:
  assumes "IsConfigListenerEnabled i" and "resolveImage ctx w = (Inr img, w1)"
  shows "ConfigListener i ctx w = reconcileListener i ctx img w1"
  using assms by (simp add: ConfigListener_def)

lemma createOrUpdate_result:
  "createOrUpdate ctx ex obj w = (r, w') \<Longrightarrow>
     r = fst (if ex then Update ctx obj [RetryOnErr] (store w)
              else Create ctx obj True [RetryOnErr] (store w))"
  by (auto simp: createOrUpdate_def call_Update_def call_Create_def split: prod.splits if_splits)

lemma syncBundle_all_ok:
  assumes "ex \<Longrightarrow> \<forall>obj s. fst (Update ctx obj [RetryOnErr] s) = None"
      and "\<not> ex \<Longrightarrow> \<forall>obj s. fst (Create ctx obj True [RetryOnErr] s) = None"
  shows "newCalls w (syncBundle i ctx img ex w) =
           map (\<lambda>obj. (writeCall ex obj, None)) (chainObjects i ctx img)"
proof -
  have ok: "createOrUpdate ctx ex obj w' = (r, w'') \<Longrightarrow>
              r = None \<and> calls w'' = calls w' @ [(writeCall ex obj, None)]" for obj w' r w''
    using assms createOrUpdate_result [of ctx ex obj w' r w'']
      createOrUpdate_calls [of ctx ex obj w' r w'']
    by (cases ex) auto
  show ?thesis
    unfolding syncBundle_def newCalls_def chainObjects_def
    by (auto split: prod.splits option.splits dest!: ok)
qed

lemma chainCalls_Update:
  "c \<in> set (chainCalls i ctx img True) \<Longrightarrow> \<exists>obj. c = CallUpdate obj [RetryOnErr]"
  by (auto simp: chainCalls_def writeCall_def)

lemma chainCalls_Create:
  "c \<in> set (chainCalls i ctx img False) \<Longrightarrow> \<exists>obj. c = CallCreate obj True [RetryOnErr]"
  by (auto simp: chainCalls_def writeCall_def)

lemma failFast_subset: "failFast expected t \<Longrightarrow> set (map fst t) \<subseteq> set expected"
  by (auto simp: failFast_def dest: in_set_takeD)

lemma failFast_nonempty: "failFast expected t \<Longrightarrow> t \<noteq> []"
  by (simp add: failFast_def)

lemma writtenDeployments_append:
  "writtenDeployments (xs @ ys) = writtenDeployments xs @ writtenDeployments ys"
  by (induction xs) (auto split: option.splits Object.splits)

lemma newCalls_trans:
  "calls w1 = calls w @ a \<Longrightarrow> calls w2 = calls w1 @ b \<Longrightarrow> newCalls w w2 = a @ b"
  by (simp add: newCalls_def)

lemma reconcileListener_cases:
  "\<exists>r w2. call_Load ctx (GetConfigListenerName i) w = (r, w2) \<and>
     (reconcileListener i ctx img w = syncBundle i ctx img (err_of r = None) w2
      \<or> reconcileListener i ctx img w = w2
      \<or> (\<exists>e w3. ScaleConfigListener 1 i ctx w2 = (e, w3) \<and>
            reconcileListener i ctx img w = (case e of Some err \<Rightarrow> Requeue err w3 | None \<Rightarrow> w3)))"
  by (cases "call_Load ctx (GetConfigListenerName i) w")
     (auto simp: reconcileListener_def err_of_def split: sum.splits option.splits prod.splits)

lemma reconcileListener_written:
  "\<exists>t. calls (reconcileListener i ctx img w) = calls w @ t \<and>
       set (writtenDeployments t) \<subseteq> {listenerDeployment i img} \<and>
       CallGetOperatorImage \<notin> set (map fst t)"
proof -
  obtain r w2 where l: "call_Load ctx (GetConfigListenerName i) w = (r, w2)"
    and c: "reconcileListener i ctx img w = syncBundle i ctx img (err_of r = None) w2
      \<or> reconcileListener i ctx img w = w2
      \<or> (\<exists>e w3. ScaleConfigListener 1 i ctx w2 = (e, w3) \<and>
            reconcileListener i ctx img w = (case e of Some err \<Rightarrow> Requeue err w3 | None \<Rightarrow> w3))"
    using reconcileListener_cases [of ctx i w img] by blast
  note lc = call_Load_calls [OF l]
  from c show ?thesis
  proof (elim disjE exE conjE)
    assume eq: "reconcileListener i ctx img w = syncBundle i ctx img (err_of r = None) w2"
    let ?t = "newCalls w2 (syncBundle i ctx img (err_of r = None) w2)"
    have "calls (reconcileListener i ctx img w) = calls w @ ((CallLoad (GetConfigListenerName i), err_of r) # ?t)"
      using syncBundle_cases [of i ctx img "err_of r = None" w2] lc eq by simp
    moreover have "set (writtenDeployments ((CallLoad (GetConfigListenerName i), err_of r) # ?t))
        \<subseteq> {listenerDeployment i img}"
      using syncBundle_written [of w2 i ctx img "err_of r = None"] by simp
    moreover have "CallGetOperatorImage \<notin> set (map fst ((CallLoad (GetConfigListenerName i), err_of r) # ?t))"
      using failFast_subset [OF syncBundle_failFast [of i ctx img "err_of r = None" w2]]
      by (auto simp: chainCalls_def writeCall_def)
    ultimately show ?thesis by blast
  next
    assume eq: "reconcileListener i ctx img w = w2"
    have "calls (reconcileListener i ctx img w) = calls w @ [(CallLoad (GetConfigListenerName i), err_of r)]"
      using lc eq by simp
    moreover have "set (writtenDeployments [(CallLoad (GetConfigListenerName i), err_of r)])
        \<subseteq> {listenerDeployment i img}"
      "CallGetOperatorImage \<notin> set (map fst [(CallLoad (GetConfigListenerName i), err_of r)])"
      by simp_all
    ultimately show ?thesis by blast
  next
    fix e w3
    assume s: "ScaleConfigListener 1 i ctx w2 = (e, w3)"
      and eq: "reconcileListener i ctx img w = (case e of Some err \<Rightarrow> Requeue err w3 | None \<Rightarrow> w3)"
    have c3: "calls (reconcileListener i ctx img w) = calls w3"
      using eq by (simp add: Requeue_def split: option.splits)
    show ?thesis
    proof (cases "IsConfigListenerEnabled i")
      case True
      from ScaleConfigListener_enabled [OF True s] lc c3
      have "calls (reconcileListener i ctx img w) =
              calls w @ [(CallLoad (GetConfigListenerName i), err_of r),
                         (CallCreateOrPatch (scaleTarget i) False (scaleMutate 1), e)]"
        by simp
      moreover have "set (writtenDeployments [(CallLoad (GetConfigListenerName i), err_of r),
                         (CallCreateOrPatch (scaleTarget i) False (scaleMutate 1), e)])
          \<subseteq> {listenerDeployment i img}"
        "CallGetOperatorImage \<notin> set (map fst [(CallLoad (GetConfigListenerName i), err_of r),
                         (CallCreateOrPatch (scaleTarget i) False (scaleMutate 1), e)])"
        by simp_all
      ultimately show ?thesis by blast
    next
      case False
      with s have "w3 = w2" by (simp add: ScaleConfigListener_def)
      with lc c3 have "calls (reconcileListener i ctx img w) =
              calls w @ [(CallLoad (GetConfigListenerName i), err_of r)]"
        by simp
      moreover have "set (writtenDeployments [(CallLoad (GetConfigListenerName i), err_of r)])
          \<subseteq> {listenerDeployment i img}"
        "CallGetOperatorImage \<notin> set (map fst [(CallLoad (GetConfigListenerName i), err_of r)])"
        by simp_all
      ultimately show ?thesis by blast
    qed
  qed
qed

lemma call_Delete_calls:
  "call_Delete ctx name k opts w = (r, w') \<Longrightarrow>
     calls w' = calls w @ [(CallDelete name k opts, r)] \<and> logs w' = logs w \<and>
     requeued w' = requeued w \<and> (r, store w') = Delete ctx name k opts (store w)"
  by (auto simp: call_Delete_def record_call_def split: prod.splits)

lemma RemoveConfigListener_cases:
  "calls (RemoveConfigListener i ctx w) = calls w @ newCalls w (RemoveConfigListener i ctx w) \<and>
   logs (RemoveConfigListener i ctx w) = logs w \<and>
   requeued (RemoveConfigListener i ctx w) = requeued w \<and>
   ((\<exists>e. newCalls w (RemoveConfigListener i ctx w) =
         [(CallDelete (GetConfigListenerName i) DeploymentKind [RetryOnErr, IgnoreNotFound], Some e)]) \<or>
    (\<exists>e. newCalls w (RemoveConfigListener i ctx w) =
         [(CallDelete (GetConfigListenerName i) DeploymentKind [RetryOnErr, IgnoreNotFound], None),
          (CallDelete (GetConfigListenerName i) RoleKind [RetryOnErr, IgnoreNotFound], Some e)]) \<or>
    (\<exists>e. newCalls w (RemoveConfigListener i ctx w) =
         [(CallDelete (GetConfigListenerName i) DeploymentKind [RetryOnErr, IgnoreNotFound], None),
          (CallDelete (GetConfigListenerName i) RoleKind [RetryOnErr, IgnoreNotFound], None),
          (CallDelete (GetConfigListenerName i) RoleBindingKind [RetryOnErr, IgnoreNotFound], Some e)]) \<or>
    (\<exists>r. newCalls w (RemoveConfigListener i ctx w) =
         [(CallDelete (GetConfigListenerName i) DeploymentKind [RetryOnErr, IgnoreNotFound], None),
          (CallDelete (GetConfigListenerName i) RoleKind [RetryOnErr, IgnoreNotFound], None),
          (CallDelete (GetConfigListenerName i) RoleBindingKind [RetryOnErr, IgnoreNotFound], None),
          (CallDelete (GetConfigListenerName i) ServiceAccountKind [RetryOnErr, IgnoreNotFound], r)]))"
  unfolding RemoveConfigListener_def removeResources_def newCalls_def
  by (auto split: prod.splits option.splits dest!: call_Delete_calls)

lemma ConfigListener_written:
  "calls (ConfigListener i ctx w) = calls w @ newCalls w (ConfigListener i ctx w) \<and>
   (\<forall>d \<in> set (writtenDeployments (newCalls w (ConfigListener i ctx w))).
      \<exists>img. d = listenerDeployment i img)"
proof (cases "IsConfigListenerEnabled i")
  case False
  then have eq: "ConfigListener i ctx w = RemoveConfigListener i ctx w"
    by (simp add: ConfigListener_def)
  show ?thesis
    unfolding eq using RemoveConfigListener_cases [of i ctx w] by auto
next
  case True
  obtain r w1 where res: "resolveImage ctx w = (r, w1)"
    by (cases "resolveImage ctx w")
  note rc = resolveImage_calls [OF res]
  define pre where "pre = (if ConfigListenerImageName ctx \<noteq> [] then []
                           else [(CallGetOperatorImage, err_of r)])"
  have pre: "calls w1 = calls w @ pre" "writtenDeployments pre = []"
    using rc by (simp_all add: pre_def)
  show ?thesis
  proof (cases r)
    case (Inl err)
    have "calls (ConfigListener i ctx w) = calls w1"
      using ConfigListener_resolve_error [OF True res [unfolded Inl]]
      by (simp add: Requeue_def Log_Error_def)
    with pre show ?thesis by (simp add: newCalls_def)
  next
    case (Inr img)
    have eq: "ConfigListener i ctx w = reconcileListener i ctx img w1"
      using ConfigListener_resolved [OF True res [unfolded Inr]] .
    obtain t where t: "calls (reconcileListener i ctx img w1) = calls w1 @ t"
      "set (writtenDeployments t) \<subseteq> {listenerDeployment i img}"
      using reconcileListener_written [of i ctx img w1] by blast
    have n: "newCalls w (ConfigListener i ctx w) = pre @ t"
      unfolding eq using pre(1) t(1) by (rule newCalls_trans)
    have c: "calls (ConfigListener i ctx w) = calls w @ pre @ t"
      unfolding eq using pre(1) t(1) by simp
    show ?thesis
      unfolding n using c t(2) pre(2) by (auto simp: writtenDeployments_append)
  qed
qed

lemma removeLoop_calls:
  "\<exists>t. calls (removeLoop ctx name ks w) = calls w @ t \<and>
       (\<forall>c e. (c, Some e) \<in> set t \<longrightarrow>
          (\<exists>k s. fst (Delete ctx name k [RetryOnErr, IgnoreNotFound] s) = Some e))"
proof (induction ks arbitrary: w)
  case Nil
  then show ?case by simp
next
  case (Cons k ks)
  obtain r w' where d: "call_Delete ctx name k [RetryOnErr, IgnoreNotFound] w = (r, w')"
    by (cases "call_Delete ctx name k [RetryOnErr, IgnoreNotFound] w")
  note dc = call_Delete_calls [OF d]
  have res: "r = fst (Delete ctx name k [RetryOnErr, IgnoreNotFound] (store w))"
    using dc by (metis fst_conv)
  show ?case
  proof (cases r)
    case (Some err)
    then have "removeLoop ctx name (k # ks) w = w'" using d by simp
    then have "calls (removeLoop ctx name (k # ks) w) =
                 calls w @ [(CallDelete name k [RetryOnErr, IgnoreNotFound], Some err)]"
      using dc Some by simp
    moreover have "\<forall>c e. (c, Some e) \<in> set [(CallDelete name k [RetryOnErr, IgnoreNotFound], Some err)]
              \<longrightarrow> (\<exists>k s. fst (Delete ctx name k [RetryOnErr, IgnoreNotFound] s) = Some e)"
      using res Some by auto
    ultimately show ?thesis by blast
  next
    case None
    then have eq: "removeLoop ctx name (k # ks) w = removeLoop ctx name ks w'" using d by simp
    obtain t where t: "calls (removeLoop ctx name ks w') = calls w' @ t"
      "\<forall>c e. (c, Some e) \<in> set t \<longrightarrow>
          (\<exists>k s. fst (Delete ctx name k [RetryOnErr, IgnoreNotFound] s) = Some e)"
      using Cons.IH [of w'] by blast
    have "calls (removeLoop ctx name (k # ks) w) =
            calls w @ ((CallDelete name k [RetryOnErr, IgnoreNotFound], None) # t)"
      unfolding eq using t(1) dc None by simp
    moreover have "\<forall>c e. (c, Some e) \<in> set ((CallDelete name k [RetryOnErr, IgnoreNotFound], None) # t)
              \<longrightarrow> (\<exists>k s. fst (Delete ctx name k [RetryOnErr, IgnoreNotFound] s) = Some e)"
      using t(2) by auto
    ultimately show ?thesis by blast
  qed
qed

lemma Resources_Delete_error:
  "fst (Resources_Delete clientDelete name k [RetryOnErr, IgnoreNotFound] s) = Some e \<Longrightarrow>
     \<not> IsNotFound e"
  by (auto simp: Resources_Delete_def split: prod.splits option.splits if_splits)

lemma removeLoop_absent:
  assumes "Delete ctx = Resources_Delete clientDelete"
      and "\<forall>k. \<exists>e. clientDelete name k (store w) = (Some e, store w) \<and> IsNotFound e"
  shows "calls (removeLoop ctx name ks w) =
           calls w @ map (\<lambda>k. (CallDelete name k [RetryOnErr, IgnoreNotFound], None)) ks
         \<and> store (removeLoop ctx name ks w) = store w"
  using assms(2)
proof (induction ks arbitrary: w)
  case Nil
  then show ?case by simp
next
  case (Cons k ks)
  obtain e where e: "clientDelete name k (store w) = (Some e, store w)" "IsNotFound e"
    using Cons.prems by blast
  define w' where "w' = record_call (CallDelete name k [RetryOnErr, IgnoreNotFound]) None (store w) w"
  have d: "call_Delete ctx name k [RetryOnErr, IgnoreNotFound] w = (None, w')"
    using e by (simp add: call_Delete_def assms(1) Resources_Delete_def w'_def)
  have s: "store w' = store w" "calls w' = calls w @ [(CallDelete name k [RetryOnErr, IgnoreNotFound], None)]"
    by (simp_all add: w'_def record_call_def)
  have "\<forall>k. \<exists>e. clientDelete name k (store w') = (Some e, store w') \<and> IsNotFound e"
    using Cons.prems s(1) by simp
  from Cons.IH [OF this] d s show ?case by simp
qed

section \<open>Runs on the in-memory store\<close>

lemma example_enabled: "IsConfigListenerEnabled (exampleInfinispan True)"
  by (simp add: exampleInfinispan_def)

lemma example_name: "GetConfigListenerName (exampleInfinispan b) = ''example-config-listener''"
  by (simp add: exampleInfinispan_def)

lemma example_resolve:
  "resolveImage exampleContext w = (Inr ''registry/listener:1'', w)"
  by (simp add: resolveImage_def exampleContext_def memContext_def)

lemma example_load:
  "call_Load exampleContext ''example-config-listener'' (exampleWorld r) =
     (Inr (runningDeployment (exampleInfinispan True) ''registry/listener:1'' r),
      record_call (CallLoad ''example-config-listener'') None (store (exampleWorld r)) (exampleWorld r))"
  by (simp add: call_Load_def exampleContext_def memContext_def memLoad_def exampleWorld_def
      emptyWorld_def clusterWith_def runningDeployment_def listenerObjectMeta_def example_name err_of_def)

lemma running_container:
  "GetContainer InfinispanListenerContainer (Template_Spec (Template (Spec (runningDeployment i img r))))
     = Some \<lparr>Container_Name = InfinispanListenerContainer, Image = img,
             Args = [''listener'', ''-namespace'', Namespace (Infinispan_ObjectMeta i),
                     ''-cluster'', Name (Infinispan_ObjectMeta i)]\<rparr>"
  by (simp add: GetContainer_def runningDeployment_def listenerDeployment_def)

lemma container_image:
  "Image \<lparr>Container_Name = n, Image = img, Args = a\<rparr> = img"
  by simp

lemma running_replicas: "Replicas (Spec (runningDeployment i img r)) = r"
  by (simp add: runningDeployment_def)

lemma forbidden_resolve:
  "resolveImage forbiddenContext w = (Inr ''registry/listener:1'', w)"
  by (simp add: resolveImage_def forbiddenContext_def memContext_def)

lemma empty_load:
  "Load ctx = memLoad \<Longrightarrow>
   call_Load ctx name (emptyWorld Map.empty) =
     (Inl (NotFound ''deployment'' name),
      record_call (CallLoad name) (Some (NotFound ''deployment'' name)) Map.empty (emptyWorld Map.empty))"
  by (simp add: call_Load_def memLoad_def emptyWorld_def err_of_def)

lemma forbidden_Load: "Load forbiddenContext = memLoad"
  by (simp add: forbiddenContext_def memContext_def)

lemma forbidden_run:
  "newCalls w (syncBundle i forbiddenContext img False w) =
           [(CallCreate (ServiceAccountObj (listenerServiceAccount i)) True [RetryOnErr], None),
            (CallCreate (RoleObj (listenerRole forbiddenContext i)) True [RetryOnErr],
             Some (OtherError ''forbidden''))]"
  by (simp add: newCalls_def syncBundle_def createOrUpdate_def call_Create_def record_call_def
      forbiddenContext_def memContext_def memPut_def failsOn_def)

lemma stale_load:
  "call_Load exampleContext ''example-config-listener'' staleWorld =
     (Inr (runningDeployment (exampleInfinispan True) ''registry/listener:0'' (Some 1)),
      record_call (CallLoad ''example-config-listener'') None (store staleWorld) staleWorld)"
  by (simp add: call_Load_def exampleContext_def memContext_def memLoad_def staleWorld_def
      emptyWorld_def clusterWith_def runningDeployment_def listenerObjectMeta_def example_name err_of_def)

lemma example_Load: "Load exampleContext = memLoad"
  by (simp add: exampleContext_def memContext_def)

lemma example_writes_ok:
  "fst (Update exampleContext obj opts s) = None" "fst (Create exampleContext obj owner opts s) = None"
  by (simp_all add: exampleContext_def memContext_def memPut_def noFailures_def)

lemma unreachable_resolve:
  "resolveImage unreachableContext w = (Inr ''registry/listener:1'', w)"
  by (simp add: resolveImage_def unreachableContext_def exampleContext_def memContext_def)

lemma unreachable_load:
  "call_Load unreachableContext name w =
     (Inl (OtherError ''connection refused''),
      record_call (CallLoad name) (Some (OtherError ''connection refused'')) (store w) w)"
  by (simp add: call_Load_def unreachableContext_def err_of_def)

lemma example_create_run:
  "newCalls (emptyWorld Map.empty)
     (ConfigListener (exampleInfinispan True) exampleContext (emptyWorld Map.empty)) =
   [(CallLoad ''example-config-listener'', Some (NotFound ''deployment'' ''example-config-listener'')),
    (CallCreate (ServiceAccountObj (listenerServiceAccount (exampleInfinispan True))) True [RetryOnErr], None),
    (CallCreate (RoleObj (listenerRole exampleContext (exampleInfinispan True))) True [RetryOnErr], None),
    (CallCreate (RoleBindingObj (listenerRoleBinding (exampleInfinispan True))) True [RetryOnErr], None),
    (CallCreate (DeploymentObj (listenerDeployment (exampleInfinispan True) ''registry/listener:1''))
       True [RetryOnErr], None)]"
proof -
  let ?i = "exampleInfinispan True"
  let ?e = "NotFound ''deployment'' ''example-config-listener''"
  let ?w2 = "record_call (CallLoad ''example-config-listener'') (Some ?e) (Map.empty :: cluster)
              (emptyWorld Map.empty)"
  have l: "call_Load exampleContext (GetConfigListenerName ?i) (emptyWorld Map.empty) = (Inl ?e, ?w2)"
    using empty_load [OF example_Load] by (simp add: example_name)
  have t: "case (Inl ?e :: error + Deployment) of Inl e \<Rightarrow> True
           | Inr d \<Rightarrow> \<not> imageMatches d ''registry/listener:1''"
    by simp
  have run: "ConfigListener ?i exampleContext (emptyWorld Map.empty) =
               syncBundle ?i exampleContext ''registry/listener:1'' False ?w2"
    using ConfigListener_chain [OF example_enabled example_resolve l t] by (simp add: err_of_def)
  have s: "newCalls ?w2 (syncBundle ?i exampleContext ''registry/listener:1'' False ?w2) =
             map (\<lambda>obj. (writeCall False obj, None)) (chainObjects ?i exampleContext ''registry/listener:1'')"
    by (rule syncBundle_all_ok) (simp_all add: example_writes_ok)
  have c: "calls (syncBundle ?i exampleContext ''registry/listener:1'' False ?w2) =
             calls ?w2 @ newCalls ?w2 (syncBundle ?i exampleContext ''registry/listener:1'' False ?w2)"
    by (rule syncBundle_cases [THEN conjunct1])
  show ?thesis
    unfolding run newCalls_def [of "emptyWorld Map.empty"] c s
    by (simp add: record_call_def emptyWorld_def chainObjects_def writeCall_def)
qed

lemma teardown_abort_example:
  "newCalls (emptyWorld Map.empty)
     (ConfigListener (exampleInfinispan False) forbiddenContext (emptyWorld Map.empty)) =
     [(CallDelete ''example-config-listener'' DeploymentKind [RetryOnErr, IgnoreNotFound], None),
      (CallDelete ''example-config-listener'' RoleKind [RetryOnErr, IgnoreNotFound],
       Some (OtherError ''forbidden''))]"
  by (simp add: ConfigListener_def RemoveConfigListener_def removeResources_def call_Delete_def
      record_call_def newCalls_def emptyWorld_def exampleInfinispan_def forbiddenContext_def
      memContext_def Resources_Delete_def memDelete_def failsOn_def)

lemma example_CreateOrPatch:
  "CreateOrPatch exampleContext =
     Resources_CreateOrPatch memGet (\<lambda>d. memPut noFailures (DeploymentObj d))
       (\<lambda>d. memPut noFailures (DeploymentObj d))"
  by (simp add: exampleContext_def memContext_def)

lemma example_get_empty:
  "memGet (scaleTarget (exampleInfinispan b)) Map.empty =
     Inl (NotFound ''deployment'' ''example-config-listener'')"
  by (simp add: memGet_def scaleTarget_def exampleInfinispan_def)

lemma example_get_running:
  "memGet (scaleTarget (exampleInfinispan True)) (store (exampleWorld r)) =
     Inr (runningDeployment (exampleInfinispan True) ''registry/listener:1'' r)"
  by (simp add: memGet_def scaleTarget_def exampleWorld_def emptyWorld_def clusterWith_def
      runningDeployment_def listenerObjectMeta_def example_name)

lemma running_created:
  "\<not> IsZero (CreationTimestamp (Deployment_ObjectMeta (runningDeployment i img r)))"
  by (simp add: runningDeployment_def IsZero_def)

lemma example_first_run_store:
  "store (ConfigListener (exampleInfinispan True) exampleContext (emptyWorld Map.empty))
     (DeploymentKind, ''example-config-listener'') =
   Some (DeploymentObj (listenerDeployment (exampleInfinispan True) ''registry/listener:1''))"
  by (simp add: ConfigListener_def resolveImage_def reconcileListener_def call_Load_def
      syncBundle_def createOrUpdate_def call_Create_def record_call_def emptyWorld_def
      exampleContext_def memContext_def memLoad_def memPut_def noFailures_def example_name
      listenerServiceAccount_def listenerRole_def listenerRoleBinding_def listenerObjectMeta_def
      example_enabled)
     (simp add: listenerDeployment_def listenerObjectMeta_def example_name)

lemma reconcile_twice_example:
  "newCalls (ConfigListener (exampleInfinispan True) exampleContext (emptyWorld Map.empty))
     (ConfigListener (exampleInfinispan True) exampleContext
        (ConfigListener (exampleInfinispan True) exampleContext (emptyWorld Map.empty))) =
   [(CallLoad ''example-config-listener'', None)]"
proof -
  let ?i = "exampleInfinispan True"
  let ?w = "ConfigListener ?i exampleContext (emptyWorld Map.empty)"
  let ?d = "listenerDeployment ?i ''registry/listener:1''"
  let ?w2 = "record_call (CallLoad ''example-config-listener'') None (store ?w) ?w"
  have l: "call_Load exampleContext (GetConfigListenerName ?i) ?w = (Inr ?d, ?w2)"
    using example_first_run_store
    by (simp add: call_Load_def example_Load memLoad_def example_name err_of_def)
  have m: "imageMatches ?d ''registry/listener:1''"
    by (simp add: imageMatches_def GetContainer_def listenerDeployment_def)
  have n: "Replicas (Spec ?d) \<noteq> Some 0"
    by (simp add: listenerDeployment_def)
  have "ConfigListener ?i exampleContext ?w = ?w2"
    using ConfigListener_fast [OF example_enabled example_resolve l m] n by simp
  then show ?thesis
    by (simp add: newCalls_def record_call_def)
qed

section \<open>The claims\<close>

text \<open>
  C1. With the feature enabled, the deployment loaded and its listener container on the
  resolved image: a deployment of zero replicas makes the invocation call the scale
  operation with target 1 and nothing else (the only calls are the image lookup, the Load
  and that CreateOrPatch); a deployment of more than zero replicas makes it stop right
  after the Load, with no further call on the store.
\<close>

theorem C1_image_up_to_date:
  assumes "IsConfigListenerEnabled i"
      and "resolveImage ctx w = (Inr img, w1)"
      and "call_Load ctx (GetConfigListenerName i) w1 = (Inr deployment, w2)"
      and "GetContainer InfinispanListenerContainer (Template_Spec (Template (Spec deployment)))
             = Some container"
      and "Image container = img"
  shows "(Replicas (Spec deployment) = Some 0 \<longrightarrow>
            (\<exists>r. map fst (newCalls w (ConfigListener i ctx w)) =
                   (if ConfigListenerImageName ctx = [] then [CallGetOperatorImage] else []) @
                   [CallLoad (GetConfigListenerName i),
                    CallCreateOrPatch (scaleTarget i) False (scaleMutate 1)]
               \<and> newCalls w2 (ConfigListener i ctx w) =
                   [(CallCreateOrPatch (scaleTarget i) False (scaleMutate 1), r)]
               \<and> (r, store (ConfigListener i ctx w)) =
                   CreateOrPatch ctx (scaleTarget i) False (scaleMutate 1) (store w2)
               \<and> requeued (ConfigListener i ctx w) =
                   requeued w @ (case r of None \<Rightarrow> [] | Some e \<Rightarrow> [e]))
            \<and> (\<forall>d. \<not> IsZero (CreationTimestamp (Deployment_ObjectMeta d)) \<longrightarrow>
                   scaleMutate 1 d = Inr (d\<lparr>Spec := (Spec d)\<lparr>Replicas := Some 1\<rparr>\<rparr>)))
       \<and> ((\<exists>n. Replicas (Spec deployment) = Some n \<and> 0 < sint n) \<longrightarrow>
            ConfigListener i ctx w = w2
            \<and> map fst (newCalls w (ConfigListener i ctx w)) =
                (if ConfigListenerImageName ctx = [] then [CallGetOperatorImage] else []) @
                [CallLoad (GetConfigListenerName i)])"
proof -
  have m: "imageMatches deployment img"
    using assms(4,5) by (rule GetContainer_imageMatches)
  note fast = ConfigListener_fast [OF assms(1,2,3) m]
  note c1 = resolveImage_calls [OF assms(2)]
  note c2 = call_Load_calls [OF assms(3)]
  have pre: "calls w2 = calls w @
      (if ConfigListenerImageName ctx = [] then [(CallGetOperatorImage, None)] else []) @
      [(CallLoad (GetConfigListenerName i), None)]"
    using c1 c2 by (simp add: err_of_def)
  have zero: ?thesis if z: "Replicas (Spec deployment) = Some 0"
  proof -
    obtain r w3 where s: "ScaleConfigListener 1 i ctx w2 = (r, w3)"
      by (cases "ScaleConfigListener 1 i ctx w2")
    note sc = ScaleConfigListener_enabled [OF assms(1) s]
    have res: "ConfigListener i ctx w = (case r of Some err \<Rightarrow> Requeue err w3 | None \<Rightarrow> w3)"
      using fast z s by (simp split: option.splits)
    have calls_res: "calls (ConfigListener i ctx w) = calls w3"
      and store_res: "store (ConfigListener i ctx w) = store w3"
      and rq: "requeued (ConfigListener i ctx w) = requeued w3 @ (case r of None \<Rightarrow> [] | Some e \<Rightarrow> [e])"
      using res by (auto simp: Requeue_def split: option.splits)
    have a: "newCalls w2 (ConfigListener i ctx w) =
               [(CallCreateOrPatch (scaleTarget i) False (scaleMutate 1), r)]"
      using sc calls_res by (simp add: newCalls_def)
    have b: "map fst (newCalls w (ConfigListener i ctx w)) =
               (if ConfigListenerImageName ctx = [] then [CallGetOperatorImage] else []) @
               [CallLoad (GetConfigListenerName i),
                CallCreateOrPatch (scaleTarget i) False (scaleMutate 1)]"
      using sc calls_res pre by (simp add: newCalls_def)
    have c: "(r, store (ConfigListener i ctx w)) =
               CreateOrPatch ctx (scaleTarget i) False (scaleMutate 1) (store w2)"
      using sc store_res by simp
    have d: "requeued (ConfigListener i ctx w) = requeued w @ (case r of None \<Rightarrow> [] | Some e \<Rightarrow> [e])"
      using rq sc c1 c2 by simp
    have e: "\<forall>d. \<not> IsZero (CreationTimestamp (Deployment_ObjectMeta d)) \<longrightarrow>
                   scaleMutate 1 d = Inr (d\<lparr>Spec := (Spec d)\<lparr>Replicas := Some 1\<rparr>\<rparr>)"
      by (simp add: scaleMutate_def)
    from a b c d e z show ?thesis by auto
  qed
  have pos: ?thesis if p: "\<exists>n. Replicas (Spec deployment) = Some n \<and> 0 < sint n"
  proof -
    from p have nz: "Replicas (Spec deployment) \<noteq> Some 0" by auto
    have res: "ConfigListener i ctx w = w2" using fast nz by simp
    have "map fst (newCalls w (ConfigListener i ctx w)) =
                (if ConfigListenerImageName ctx = [] then [CallGetOperatorImage] else []) @
                [CallLoad (GetConfigListenerName i)]"
      using res pre by (simp add: newCalls_def)
    with res nz show ?thesis by simp
  qed
  show ?thesis
  proof (cases "Replicas (Spec deployment) = Some 0")
    case True then show ?thesis by (rule zero)
  next
    case False
    show ?thesis
    proof (cases "\<exists>n. Replicas (Spec deployment) = Some n \<and> 0 < sint n")
      case True then show ?thesis by (rule pos)
    next
      case False
      with \<open>Replicas (Spec deployment) \<noteq> Some 0\<close> show ?thesis by blast
    qed
  qed
qed

text \<open>
  C1 at a cluster whose deployment runs the wanted image with zero replicas, and with
  two replicas.
\<close>

theorem C1_image_up_to_date_witness:
  "map fst (newCalls (exampleWorld (Some 0))
       (ConfigListener (exampleInfinispan True) exampleContext (exampleWorld (Some 0)))) =
     [CallLoad ''example-config-listener'',
      CallCreateOrPatch (scaleTarget (exampleInfinispan True)) False (scaleMutate 1)]
   \<and> ConfigListener (exampleInfinispan True) exampleContext (exampleWorld (Some 2)) =
       record_call (CallLoad ''example-config-listener'') None (store (exampleWorld (Some 2)))
         (exampleWorld (Some 2))"
proof -
  have n: "ConfigListenerImageName exampleContext \<noteq> []"
    by (simp add: exampleContext_def memContext_def)
  have l: "call_Load exampleContext (GetConfigListenerName (exampleInfinispan True)) (exampleWorld r) =
     (Inr (runningDeployment (exampleInfinispan True) ''registry/listener:1'' r),
      record_call (CallLoad ''example-config-listener'') None (store (exampleWorld r)) (exampleWorld r))"
    for r
    using example_load by (simp add: example_name)
  have a: "map fst (newCalls (exampleWorld (Some 0))
       (ConfigListener (exampleInfinispan True) exampleContext (exampleWorld (Some 0)))) =
     [CallLoad ''example-config-listener'',
      CallCreateOrPatch (scaleTarget (exampleInfinispan True)) False (scaleMutate 1)]"
    using C1_image_up_to_date [OF example_enabled example_resolve l running_container container_image,
        of "Some 0"] n
    by (auto simp: running_replicas example_name)
  have b: "ConfigListener (exampleInfinispan True) exampleContext (exampleWorld (Some 2)) =
       record_call (CallLoad ''example-config-listener'') None (store (exampleWorld (Some 2)))
         (exampleWorld (Some 2))"
    using C1_image_up_to_date [OF example_enabled example_resolve l running_container container_image,
        of "Some 2"]
    by (simp add: running_replicas)
  from a b show ?thesis ..
qed

text \<open>
  C2 as stated fails at an empty cluster: the feature is enabled, the image is resolved,
  the Load finds nothing, every Create returns nil, and the deployment handed to Create
  has no replica count rather than a count of 1.
\<close>

theorem C2_replicas_counterexample:
  "IsConfigListenerEnabled (exampleInfinispan True)
   \<and> newCalls (emptyWorld Map.empty)
       (ConfigListener (exampleInfinispan True) exampleContext (emptyWorld Map.empty)) =
     [(CallLoad ''example-config-listener'', Some (NotFound ''deployment'' ''example-config-listener'')),
      (CallCreate (ServiceAccountObj (listenerServiceAccount (exampleInfinispan True))) True [RetryOnErr], None),
      (CallCreate (RoleObj (listenerRole exampleContext (exampleInfinispan True))) True [RetryOnErr], None),
      (CallCreate (RoleBindingObj (listenerRoleBinding (exampleInfinispan True))) True [RetryOnErr], None),
      (CallCreate (DeploymentObj (listenerDeployment (exampleInfinispan True) ''registry/listener:1''))
         True [RetryOnErr], None)]
   \<and> Replicas (Spec (listenerDeployment (exampleInfinispan True) ''registry/listener:1'')) \<noteq> Some 1"
  using example_enabled example_create_run by (simp add: listenerDeployment_def)

text \<open>
  C2, amended. With the feature enabled, the image resolved, the Load finding no
  deployment and every Create returning nil, the calls after the Load are the Creates of
  the ServiceAccount, the Role, the RoleBinding and the Deployment, in that order; each
  object has the listener name and the parent's namespace; the deployment's listener
  container runs the resolved image; and the deployment's replica count is unset.
\<close>

theorem C2_create_from_empty:
  assumes "IsConfigListenerEnabled i"
      and "resolveImage ctx w = (Inr img, w1)"
      and "call_Load ctx (GetConfigListenerName i) w1 = (Inl e, w2)"
      and "\<forall>obj s. fst (Create ctx obj True [RetryOnErr] s) = None"
  shows "\<exists>sa role rb d c.
           newCalls w2 (ConfigListener i ctx w) =
             [(CallCreate (ServiceAccountObj sa) True [RetryOnErr], None),
              (CallCreate (RoleObj role) True [RetryOnErr], None),
              (CallCreate (RoleBindingObj rb) True [RetryOnErr], None),
              (CallCreate (DeploymentObj d) True [RetryOnErr], None)]
         \<and> (\<forall>m \<in> set [ServiceAccount_ObjectMeta sa, Role_ObjectMeta role,
                         RoleBinding_ObjectMeta rb, Deployment_ObjectMeta d].
               Name m = GetConfigListenerName i \<and> Namespace m = Namespace (Infinispan_ObjectMeta i))
         \<and> GetContainer InfinispanListenerContainer (Template_Spec (Template (Spec d))) = Some c
         \<and> Image c = img
         \<and> Replicas (Spec d) = None"
proof -
  have t: "case (Inl e :: error + Deployment) of Inl e \<Rightarrow> True | Inr d \<Rightarrow> \<not> imageMatches d img"
    by simp
  have eq: "ConfigListener i ctx w = syncBundle i ctx img False w2"
    using ConfigListener_chain [OF assms(1,2,3) t] by (simp add: err_of_def)
  have run: "newCalls w2 (ConfigListener i ctx w) =
             [(CallCreate (ServiceAccountObj (listenerServiceAccount i)) True [RetryOnErr], None),
              (CallCreate (RoleObj (listenerRole ctx i)) True [RetryOnErr], None),
              (CallCreate (RoleBindingObj (listenerRoleBinding i)) True [RetryOnErr], None),
              (CallCreate (DeploymentObj (listenerDeployment i img)) True [RetryOnErr], None)]"
    unfolding eq using syncBundle_all_ok [of False ctx w2 i img] assms(4)
    by (simp add: chainObjects_def writeCall_def)
  have metas: "\<forall>m \<in> set [ServiceAccount_ObjectMeta (listenerServiceAccount i),
                          Role_ObjectMeta (listenerRole ctx i),
                          RoleBinding_ObjectMeta (listenerRoleBinding i),
                          Deployment_ObjectMeta (listenerDeployment i img)].
               Name m = GetConfigListenerName i \<and> Namespace m = Namespace (Infinispan_ObjectMeta i)"
    by (simp add: listenerServiceAccount_def listenerRole_def listenerRoleBinding_def
        listenerDeployment_def listenerObjectMeta_def)
  have cont: "GetContainer InfinispanListenerContainer
                (Template_Spec (Template (Spec (listenerDeployment i img)))) =
              Some \<lparr>Container_Name = InfinispanListenerContainer, Image = img,
                     Args = [''listener'', ''-namespace'', Namespace (Infinispan_ObjectMeta i),
                             ''-cluster'', Name (Infinispan_ObjectMeta i)]\<rparr>"
    by (simp add: GetContainer_def listenerDeployment_def)
  have repl: "Replicas (Spec (listenerDeployment i img)) = None"
    by (simp add: listenerDeployment_def)
  from run metas cont repl container_image show ?thesis by blast
qed

text \<open>C2, amended, at an empty cluster whose writes all succeed.\<close>

theorem C2_create_from_empty_witness:
  "\<exists>sa role rb d c.
     newCalls
       (record_call (CallLoad ''example-config-listener'')
          (Some (NotFound ''deployment'' ''example-config-listener'')) Map.empty (emptyWorld Map.empty))
       (ConfigListener (exampleInfinispan True) exampleContext (emptyWorld Map.empty)) =
       [(CallCreate (ServiceAccountObj sa) True [RetryOnErr], None),
        (CallCreate (RoleObj role) True [RetryOnErr], None),
        (CallCreate (RoleBindingObj rb) True [RetryOnErr], None),
        (CallCreate (DeploymentObj d) True [RetryOnErr], None)]
     \<and> (\<forall>m \<in> set [ServiceAccount_ObjectMeta sa, Role_ObjectMeta role,
                     RoleBinding_ObjectMeta rb, Deployment_ObjectMeta d].
           Name m = ''example-config-listener'' \<and> Namespace m = ''ns'')
     \<and> GetContainer InfinispanListenerContainer (Template_Spec (Template (Spec d))) = Some c
     \<and> Image c = ''registry/listener:1''
     \<and> Replicas (Spec d) = None"
proof -
  let ?i = "exampleInfinispan True"
  let ?e = "NotFound ''deployment'' ''example-config-listener''"
  have l: "call_Load exampleContext (GetConfigListenerName ?i) (emptyWorld Map.empty) =
             (Inl ?e, record_call (CallLoad ''example-config-listener'') (Some ?e) Map.empty
                        (emptyWorld Map.empty))"
    using empty_load [OF example_Load] by (simp add: example_name)
  have ok: "\<forall>obj s. fst (Create exampleContext obj True [RetryOnErr] s) = None"
    by (simp add: example_writes_ok)
  have ns: "Namespace (Infinispan_ObjectMeta ?i) = ''ns''"
    by (simp add: exampleInfinispan_def)
  show ?thesis
    using C2_create_from_empty [OF example_enabled example_resolve l ok]
    unfolding example_name ns .
qed

text \<open>
  C3. When an invocation reaches the chain (feature enabled, image resolved, and the
  deployment absent or not on the wanted image), the calls after the Load are the first
  steps of ServiceAccount, Role, RoleBinding, Deployment, in that order; every step but
  the last returned nil, and the chain stops early only on an error. No other call (no
  delete, no second attempt) follows a failed step. If the Role step returns an error,
  the calls are exactly the ServiceAccount step and the Role step.
\<close>

theorem C3_chain_fail_fast:
  assumes "IsConfigListenerEnabled i"
      and "resolveImage ctx w = (Inr img, w1)"
      and "call_Load ctx (GetConfigListenerName i) w1 = (r, w2)"
      and "case r of Inl e \<Rightarrow> True | Inr d \<Rightarrow> \<not> imageMatches d img"
  shows "calls (ConfigListener i ctx w) = calls w2 @ newCalls w2 (ConfigListener i ctx w)
       \<and> failFast (chainCalls i ctx img (err_of r = None)) (newCalls w2 (ConfigListener i ctx w))
       \<and> map (\<lambda>c. map_option kind_of (written c)) (chainCalls i ctx img (err_of r = None)) =
           [Some ServiceAccountKind, Some RoleKind, Some RoleBindingKind, Some DeploymentKind]
       \<and> (\<forall>e. (writeCall (err_of r = None) (RoleObj (listenerRole ctx i)), Some e)
                 \<in> set (newCalls w2 (ConfigListener i ctx w)) \<longrightarrow>
               newCalls w2 (ConfigListener i ctx w) =
                 [(writeCall (err_of r = None) (ServiceAccountObj (listenerServiceAccount i)), None),
                  (writeCall (err_of r = None) (RoleObj (listenerRole ctx i)), Some e)])
       \<and> logs (ConfigListener i ctx w) = logs w2
       \<and> requeued (ConfigListener i ctx w) = requeued w2"
proof -
  have eq: "ConfigListener i ctx w = syncBundle i ctx img (err_of r = None) w2"
    using assms by (rule ConfigListener_chain)
  have kinds: "map (\<lambda>c. map_option kind_of (written c)) (chainCalls i ctx img (err_of r = None)) =
           [Some ServiceAccountKind, Some RoleKind, Some RoleBindingKind, Some DeploymentKind]"
    by (simp add: chainCalls_def chainObjects_def)
  show ?thesis
    unfolding eq
    using syncBundle_cases [of i ctx img "err_of r = None" w2]
      syncBundle_failFast [of i ctx img "err_of r = None" w2]
      syncBundle_role_fails [of "err_of r = None" ctx i _ w2 img] kinds
    by blast
qed

text \<open>
  C3 at an empty cluster whose Role writes are forbidden.
\<close>

theorem C3_chain_fail_fast_witness:
  "newCalls
     (record_call (CallLoad ''example-config-listener'')
        (Some (NotFound ''deployment'' ''example-config-listener'')) Map.empty (emptyWorld Map.empty))
     (ConfigListener (exampleInfinispan True) forbiddenContext (emptyWorld Map.empty)) =
   [(CallCreate (ServiceAccountObj (listenerServiceAccount (exampleInfinispan True))) True [RetryOnErr],
     None),
    (CallCreate (RoleObj (listenerRole forbiddenContext (exampleInfinispan True))) True [RetryOnErr],
     Some (OtherError ''forbidden''))]"
proof -
  let ?i = "exampleInfinispan True"
  let ?w2 = "record_call (CallLoad ''example-config-listener'')
        (Some (NotFound ''deployment'' ''example-config-listener'')) Map.empty (emptyWorld Map.empty)"
  have l: "call_Load forbiddenContext (GetConfigListenerName ?i) (emptyWorld Map.empty) =
             (Inl (NotFound ''deployment'' ''example-config-listener''), ?w2)"
    using empty_load [OF forbidden_Load] by (simp add: example_name)
  have t: "case (Inl (NotFound ''deployment'' ''example-config-listener'') :: error + Deployment) of
             Inl e \<Rightarrow> True | Inr d \<Rightarrow> \<not> imageMatches d ''registry/listener:1''"
    by simp
  note c3 = C3_chain_fail_fast [OF example_enabled forbidden_resolve l t]
  have run: "ConfigListener ?i forbiddenContext (emptyWorld Map.empty) =
               syncBundle ?i forbiddenContext ''registry/listener:1'' False ?w2"
    using ConfigListener_chain [OF example_enabled forbidden_resolve l t] by (simp add: err_of_def)
  have m: "(writeCall False (RoleObj (listenerRole forbiddenContext ?i)), Some (OtherError ''forbidden''))
             \<in> set (newCalls ?w2 (ConfigListener ?i forbiddenContext (emptyWorld Map.empty)))"
    unfolding run forbidden_run by (simp add: writeCall_def)
  from c3 m show ?thesis
    by (simp add: err_of_def writeCall_def)
qed

text \<open>
  C4. With the feature disabled, whatever the cluster holds, an invocation only calls
  Delete: on the four types, by the listener name, each asking the store to ignore
  NotFound. A Delete that returns nil is followed by the next one; the first error
  returned ends the invocation; when every Delete returns nil, all four are made.
  Nothing is logged or requeued. With the store's Delete as the spec describes it, an
  error that ends the invocation is never a NotFound, and when the client reports
  NotFound for every type and changes nothing, all four Deletes are made, all return
  nil, and the store is as before.
\<close>

theorem C4_teardown:
  assumes "\<not> IsConfigListenerEnabled i"
  shows "failFast (deleteCalls (GetConfigListenerName i)) (newCalls w (ConfigListener i ctx w))
       \<and> calls (ConfigListener i ctx w) = calls w @ newCalls w (ConfigListener i ctx w)
       \<and> logs (ConfigListener i ctx w) = logs w
       \<and> requeued (ConfigListener i ctx w) = requeued w
       \<and> ((\<forall>k s. fst (Delete ctx (GetConfigListenerName i) k [RetryOnErr, IgnoreNotFound] s) = None)
            \<longrightarrow> newCalls w (ConfigListener i ctx w) =
                  map (\<lambda>c. (c, None)) (deleteCalls (GetConfigListenerName i)))
       \<and> (Delete ctx = Resources_Delete clientDelete \<longrightarrow>
            (\<forall>c e. (c, Some e) \<in> set (newCalls w (ConfigListener i ctx w)) \<longrightarrow> \<not> IsNotFound e)
            \<and> ((\<forall>k. \<exists>e. clientDelete (GetConfigListenerName i) k (store w) = (Some e, store w) \<and>
                         IsNotFound e) \<longrightarrow>
                 newCalls w (ConfigListener i ctx w) =
                   map (\<lambda>c. (c, None)) (deleteCalls (GetConfigListenerName i))
                 \<and> store (ConfigListener i ctx w) = store w))"
proof -
  have eq: "ConfigListener i ctx w = RemoveConfigListener i ctx w"
    using assms(1) by (simp add: ConfigListener_def)
  note cs = RemoveConfigListener_cases [of i ctx w]
  have ff: "failFast (deleteCalls (GetConfigListenerName i)) (newCalls w (RemoveConfigListener i ctx w))"
    using cs by (auto simp: failFast_def deleteCalls_def)
  have src: "\<exists>k s. fst (Delete ctx (GetConfigListenerName i) k [RetryOnErr, IgnoreNotFound] s) = Some e"
    if "(c, Some e) \<in> set (newCalls w (RemoveConfigListener i ctx w))" for c e
  proof -
    obtain t where t: "calls (RemoveConfigListener i ctx w) = calls w @ t"
      "\<forall>c e. (c, Some e) \<in> set t \<longrightarrow>
          (\<exists>k s. fst (Delete ctx (GetConfigListenerName i) k [RetryOnErr, IgnoreNotFound] s) = Some e)"
      using removeLoop_calls [of ctx "GetConfigListenerName i" removeResources w]
      unfolding RemoveConfigListener_def by blast
    have "newCalls w (RemoveConfigListener i ctx w) = t"
      using t(1) by (rule newCalls_append)
    with that t(2) show ?thesis by blast
  qed
  have ok: "newCalls w (RemoveConfigListener i ctx w) =
              map (\<lambda>c. (c, None)) (deleteCalls (GetConfigListenerName i))"
    if nil: "\<forall>k s. fst (Delete ctx (GetConfigListenerName i) k [RetryOnErr, IgnoreNotFound] s) = None"
  proof -
    have none: "r = None" if "(c, r) \<in> set (newCalls w (RemoveConfigListener i ctx w))" for c r
    proof (cases r)
      case None then show ?thesis .
    next
      case (Some e)
      with that src [of c e] nil show ?thesis by auto
    qed
    from cs have "(\<exists>e. newCalls w (RemoveConfigListener i ctx w) =
         [(CallDelete (GetConfigListenerName i) DeploymentKind [RetryOnErr, IgnoreNotFound], Some e)]) \<or>
    (\<exists>e. newCalls w (RemoveConfigListener i ctx w) =
         [(CallDelete (GetConfigListenerName i) DeploymentKind [RetryOnErr, IgnoreNotFound], None),
          (CallDelete (GetConfigListenerName i) RoleKind [RetryOnErr, IgnoreNotFound], Some e)]) \<or>
    (\<exists>e. newCalls w (RemoveConfigListener i ctx w) =
         [(CallDelete (GetConfigListenerName i) DeploymentKind [RetryOnErr, IgnoreNotFound], None),
          (CallDelete (GetConfigListenerName i) RoleKind [RetryOnErr, IgnoreNotFound], None),
          (CallDelete (GetConfigListenerName i) RoleBindingKind [RetryOnErr, IgnoreNotFound], Some e)]) \<or>
    (\<exists>r. newCalls w (RemoveConfigListener i ctx w) =
         [(CallDelete (GetConfigListenerName i) DeploymentKind [RetryOnErr, IgnoreNotFound], None),
          (CallDelete (GetConfigListenerName i) RoleKind [RetryOnErr, IgnoreNotFound], None),
          (CallDelete (GetConfigListenerName i) RoleBindingKind [RetryOnErr, IgnoreNotFound], None),
          (CallDelete (GetConfigListenerName i) ServiceAccountKind [RetryOnErr, IgnoreNotFound], r)])"
      by blast
    then show ?thesis
    proof (elim disjE exE)
      fix r
      assume a: "newCalls w (RemoveConfigListener i ctx w) =
         [(CallDelete (GetConfigListenerName i) DeploymentKind [RetryOnErr, IgnoreNotFound], None),
          (CallDelete (GetConfigListenerName i) RoleKind [RetryOnErr, IgnoreNotFound], None),
          (CallDelete (GetConfigListenerName i) RoleBindingKind [RetryOnErr, IgnoreNotFound], None),
          (CallDelete (GetConfigListenerName i) ServiceAccountKind [RetryOnErr, IgnoreNotFound], r)]"
      then have "r = None"
        using none [of "CallDelete (GetConfigListenerName i) ServiceAccountKind [RetryOnErr, IgnoreNotFound]" r]
        by simp
      with a show ?thesis by (simp add: deleteCalls_def)
    qed (use none in \<open>fastforce+\<close>)
  qed
  have nf: "\<not> IsNotFound e"
    if "Delete ctx = Resources_Delete clientDelete"
      and "(c, Some e) \<in> set (newCalls w (RemoveConfigListener i ctx w))" for c e
  proof -
    from src [OF that(2)] obtain k s
      where "fst (Delete ctx (GetConfigListenerName i) k [RetryOnErr, IgnoreNotFound] s) = Some e"
      by blast
    then show ?thesis
      unfolding that(1) by (rule Resources_Delete_error)
  qed
  have ab: "newCalls w (RemoveConfigListener i ctx w) =
              map (\<lambda>c. (c, None)) (deleteCalls (GetConfigListenerName i))
            \<and> store (RemoveConfigListener i ctx w) = store w"
    if d: "Delete ctx = Resources_Delete clientDelete"
      and "\<forall>k. \<exists>e. clientDelete (GetConfigListenerName i) k (store w) = (Some e, store w) \<and> IsNotFound e"
    using removeLoop_absent [OF d that(2), of removeResources]
    unfolding RemoveConfigListener_def
    by (simp add: newCalls_def deleteCalls_def removeResources_def)
  show ?thesis
    unfolding eq using ff cs ok nf ab by blast
qed

text \<open>C4 at an empty cluster with the feature disabled.\<close>

theorem C4_teardown_witness:
  "newCalls (emptyWorld Map.empty)
     (ConfigListener (exampleInfinispan False) exampleContext (emptyWorld Map.empty)) =
     [(CallDelete ''example-config-listener'' DeploymentKind [RetryOnErr, IgnoreNotFound], None),
      (CallDelete ''example-config-listener'' RoleKind [RetryOnErr, IgnoreNotFound], None),
      (CallDelete ''example-config-listener'' RoleBindingKind [RetryOnErr, IgnoreNotFound], None),
      (CallDelete ''example-config-listener'' ServiceAccountKind [RetryOnErr, IgnoreNotFound], None)]
   \<and> store (ConfigListener (exampleInfinispan False) exampleContext (emptyWorld Map.empty)) = Map.empty"
proof -
  have d: "\<not> IsConfigListenerEnabled (exampleInfinispan False)"
    by (simp add: exampleInfinispan_def)
  have r: "Delete exampleContext = Resources_Delete (memDelete noFailures)"
    by (simp add: exampleContext_def memContext_def)
  have a: "\<forall>k. \<exists>e. memDelete noFailures (GetConfigListenerName (exampleInfinispan False)) k
                     (store (emptyWorld (Map.empty :: cluster))) =
                   (Some e, store (emptyWorld (Map.empty :: cluster))) \<and> IsNotFound e"
    by (simp add: memDelete_def noFailures_def emptyWorld_def)
  show ?thesis
    using C4_teardown [OF d, of "emptyWorld Map.empty" exampleContext "memDelete noFailures"] r a
    by (simp add: deleteCalls_def example_name emptyWorld_def)
qed

text \<open>
  C5. ScaleConfigListener with the feature disabled returns nil and leaves the world as
  it is. With the feature enabled it makes one CreateOrPatch call on the listener
  deployment, with a closure, and returns what that call returns, logging an error it
  gets; it does not call again. The closure answers a deployment of zero creation time
  with a NotFound error and sets the replica count of any other to the target. With the
  store's CreateOrPatch as the spec describes it: when the store finds no deployment, or
  loads one with a zero creation time, the result is that NotFound error and the store
  is unchanged (nothing is created or patched); when it loads a deployment with a
  creation time, the deployment with its replica count set to the target is what the
  store is asked to patch, and the outcome of that patch is the result.
\<close>

theorem C5_scale:
  "(\<not> IsConfigListenerEnabled i \<longrightarrow> ScaleConfigListener replicas i ctx w = (None, w))
   \<and> (IsConfigListenerEnabled i \<longrightarrow>
        newCalls w (snd (ScaleConfigListener replicas i ctx w)) =
          [(CallCreateOrPatch (scaleTarget i) False (scaleMutate replicas),
            fst (ScaleConfigListener replicas i ctx w))]
      \<and> (fst (ScaleConfigListener replicas i ctx w),
          store (snd (ScaleConfigListener replicas i ctx w))) =
          CreateOrPatch ctx (scaleTarget i) False (scaleMutate replicas) (store w)
      \<and> logs (snd (ScaleConfigListener replicas i ctx w)) =
          logs w @ LogInfo ''Scaling ConfigListener deployment'' replicas #
            (case fst (ScaleConfigListener replicas i ctx w) of
               None \<Rightarrow> []
             | Some e \<Rightarrow> [LogError e ''unable to scale ConfigListener Deployment''])
      \<and> requeued (snd (ScaleConfigListener replicas i ctx w)) = requeued w)
   \<and> (\<forall>d. IsZero (CreationTimestamp (Deployment_ObjectMeta d)) \<longrightarrow>
          scaleMutate replicas d = Inl (NotFound ''deployment'' (Name (Deployment_ObjectMeta d))))
   \<and> (\<forall>d. \<not> IsZero (CreationTimestamp (Deployment_ObjectMeta d)) \<longrightarrow>
          scaleMutate replicas d = Inr (d\<lparr>Spec := (Spec d)\<lparr>Replicas := Some replicas\<rparr>\<rparr>))
   \<and> (IsConfigListenerEnabled i \<and>
       CreateOrPatch ctx = Resources_CreateOrPatch clientGet clientCreate clientPatch \<longrightarrow>
        (\<forall>e. clientGet (scaleTarget i) (store w) = Inl e \<and> IsNotFound e \<longrightarrow>
            fst (ScaleConfigListener replicas i ctx w) =
              Some (NotFound ''deployment'' (GetConfigListenerName i))
            \<and> store (snd (ScaleConfigListener replicas i ctx w)) = store w)
      \<and> (\<forall>d. clientGet (scaleTarget i) (store w) = Inr d \<and>
               IsZero (CreationTimestamp (Deployment_ObjectMeta d)) \<longrightarrow>
            fst (ScaleConfigListener replicas i ctx w) =
              Some (NotFound ''deployment'' (Name (Deployment_ObjectMeta d)))
            \<and> store (snd (ScaleConfigListener replicas i ctx w)) = store w)
      \<and> (\<forall>d. clientGet (scaleTarget i) (store w) = Inr d \<and>
               \<not> IsZero (CreationTimestamp (Deployment_ObjectMeta d)) \<longrightarrow>
            (fst (ScaleConfigListener replicas i ctx w),
             store (snd (ScaleConfigListener replicas i ctx w))) =
              clientPatch (d\<lparr>Spec := (Spec d)\<lparr>Replicas := Some replicas\<rparr>\<rparr>) (store w)))"
proof -
  obtain r w' where s: "ScaleConfigListener replicas i ctx w = (r, w')"
    by (cases "ScaleConfigListener replicas i ctx w")
  have off: "(r, w') = (None, w)" if "\<not> IsConfigListenerEnabled i"
    using that s by (simp add: ScaleConfigListener_def)
  have on: "newCalls w w' = [(CallCreateOrPatch (scaleTarget i) False (scaleMutate replicas), r)]
      \<and> (r, store w') = CreateOrPatch ctx (scaleTarget i) False (scaleMutate replicas) (store w)
      \<and> logs w' = logs w @ LogInfo ''Scaling ConfigListener deployment'' replicas #
            (case r of None \<Rightarrow> [] | Some e \<Rightarrow> [LogError e ''unable to scale ConfigListener Deployment''])
      \<and> requeued w' = requeued w"
    if en: "IsConfigListenerEnabled i"
    using ScaleConfigListener_enabled [OF en s] by (simp add: newCalls_def)
  have z: "\<forall>d. IsZero (CreationTimestamp (Deployment_ObjectMeta d)) \<longrightarrow>
          scaleMutate replicas d = Inl (NotFound ''deployment'' (Name (Deployment_ObjectMeta d)))"
    and nz: "\<forall>d. \<not> IsZero (CreationTimestamp (Deployment_ObjectMeta d)) \<longrightarrow>
          scaleMutate replicas d = Inr (d\<lparr>Spec := (Spec d)\<lparr>Replicas := Some replicas\<rparr>\<rparr>)"
    by (simp_all add: scaleMutate_def)
  have st: "(\<forall>e. clientGet (scaleTarget i) (store w) = Inl e \<and> IsNotFound e \<longrightarrow>
            r = Some (NotFound ''deployment'' (GetConfigListenerName i)) \<and> store w' = store w)
      \<and> (\<forall>d. clientGet (scaleTarget i) (store w) = Inr d \<and>
               IsZero (CreationTimestamp (Deployment_ObjectMeta d)) \<longrightarrow>
            r = Some (NotFound ''deployment'' (Name (Deployment_ObjectMeta d))) \<and> store w' = store w)
      \<and> (\<forall>d. clientGet (scaleTarget i) (store w) = Inr d \<and>
               \<not> IsZero (CreationTimestamp (Deployment_ObjectMeta d)) \<longrightarrow>
            (r, store w') = clientPatch (d\<lparr>Spec := (Spec d)\<lparr>Replicas := Some replicas\<rparr>\<rparr>) (store w))"
    if en: "IsConfigListenerEnabled i"
      and c: "CreateOrPatch ctx = Resources_CreateOrPatch clientGet clientCreate clientPatch"
  proof -
    have cop: "(r, store w') =
                 Resources_CreateOrPatch clientGet clientCreate clientPatch (scaleTarget i) False
                   (scaleMutate replicas) (store w)"
      using on [OF en] c by simp
    have b: "r = Some (NotFound ''deployment'' (GetConfigListenerName i)) \<and> store w' = store w"
      if "clientGet (scaleTarget i) (store w) = Inl e" "IsNotFound e" for e
      using cop that
      by (simp add: Resources_CreateOrPatch_def scaleMutate_def scaleTarget_def IsZero_def)
    have c: "r = Some (NotFound ''deployment'' (Name (Deployment_ObjectMeta d))) \<and> store w' = store w"
      if "clientGet (scaleTarget i) (store w) = Inr d"
        "IsZero (CreationTimestamp (Deployment_ObjectMeta d))" for d
      using cop that by (simp add: Resources_CreateOrPatch_def scaleMutate_def)
    have d: "(r, store w') = clientPatch (d\<lparr>Spec := (Spec d)\<lparr>Replicas := Some replicas\<rparr>\<rparr>) (store w)"
      if "clientGet (scaleTarget i) (store w) = Inr d"
        "\<not> IsZero (CreationTimestamp (Deployment_ObjectMeta d))" for d
      using cop that by (simp add: Resources_CreateOrPatch_def scaleMutate_def)
    from b c d show ?thesis by blast
  qed
  from off on z nz st show ?thesis
    unfolding s fst_conv snd_conv by blast
qed

text \<open>
  C5 with the feature disabled, at an empty cluster (NotFound, nothing created), and at
  a cluster whose deployment has zero replicas (the stored deployment gets three).
\<close>

theorem C5_scale_witness:
  "ScaleConfigListener 3 (exampleInfinispan False) exampleContext (emptyWorld Map.empty) =
     (None, emptyWorld Map.empty)
   \<and> fst (ScaleConfigListener 3 (exampleInfinispan True) exampleContext (emptyWorld Map.empty)) =
       Some (NotFound ''deployment'' ''example-config-listener'')
   \<and> store (snd (ScaleConfigListener 3 (exampleInfinispan True) exampleContext (emptyWorld Map.empty))) =
       Map.empty
   \<and> fst (ScaleConfigListener 3 (exampleInfinispan True) exampleContext (exampleWorld (Some 0))) = None
   \<and> store (snd (ScaleConfigListener 3 (exampleInfinispan True) exampleContext (exampleWorld (Some 0))))
       (DeploymentKind, ''example-config-listener'') =
       Some (DeploymentObj (runningDeployment (exampleInfinispan True) ''registry/listener:1'' (Some 3)))"
proof -
  let ?off = "exampleInfinispan False"
  let ?on = "exampleInfinispan True"
  have d: "\<not> IsConfigListenerEnabled ?off"
    by (simp add: exampleInfinispan_def)
  have a: "ScaleConfigListener 3 ?off exampleContext (emptyWorld Map.empty) =
             (None, emptyWorld Map.empty)"
    using C5_scale [of ?off 3 exampleContext "emptyWorld Map.empty"] d by blast
  have g: "memGet (scaleTarget ?on) (store (emptyWorld (Map.empty :: cluster))) =
             Inl (NotFound ''deployment'' ''example-config-listener'')
           \<and> IsNotFound (NotFound ''deployment'' ''example-config-listener'')"
    using example_get_empty by (simp add: emptyWorld_def)
  have b: "fst (ScaleConfigListener 3 ?on exampleContext (emptyWorld Map.empty)) =
             Some (NotFound ''deployment'' ''example-config-listener'')
           \<and> store (snd (ScaleConfigListener 3 ?on exampleContext (emptyWorld Map.empty))) = Map.empty"
    using C5_scale [of ?on 3 exampleContext "emptyWorld Map.empty" memGet
        "\<lambda>d. memPut noFailures (DeploymentObj d)" "\<lambda>d. memPut noFailures (DeploymentObj d)"]
      example_enabled example_CreateOrPatch g
    by (simp add: example_name emptyWorld_def)
  let ?d = "runningDeployment ?on ''registry/listener:1'' (Some 0)"
  have p: "memPut noFailures (DeploymentObj (?d\<lparr>Spec := (Spec ?d)\<lparr>Replicas := Some 3\<rparr>\<rparr>))
             (store (exampleWorld (Some 0))) =
           (None, (store (exampleWorld (Some 0)))
              ((DeploymentKind, ''example-config-listener'') \<mapsto>
                 DeploymentObj (runningDeployment ?on ''registry/listener:1'' (Some 3))))"
    by (simp add: memPut_def noFailures_def runningDeployment_def listenerObjectMeta_def example_name)
  have c: "(fst (ScaleConfigListener 3 ?on exampleContext (exampleWorld (Some 0))),
            store (snd (ScaleConfigListener 3 ?on exampleContext (exampleWorld (Some 0))))) =
           (None, (store (exampleWorld (Some 0)))
              ((DeploymentKind, ''example-config-listener'') \<mapsto>
                 DeploymentObj (runningDeployment ?on ''registry/listener:1'' (Some 3))))"
    using C5_scale [of ?on 3 exampleContext "exampleWorld (Some 0)" memGet
        "\<lambda>d. memPut noFailures (DeploymentObj d)" "\<lambda>d. memPut noFailures (DeploymentObj d)"]
      example_enabled example_CreateOrPatch
      example_get_running [of "Some 0"] running_created [of ?on "''registry/listener:1''" "Some 0"] p
    by simp
  from a b c show ?thesis by simp
qed

text \<open>
  C6. When the chain runs (Load failed, or the loaded deployment lacks the listener
  container, or that container runs another image), every step is an Update if the Load
  succeeded and a Create if it failed; with a deployment on another image and a store
  whose updates succeed, all four objects are updated.
\<close>

theorem C6_mode_follows_load:
  assumes "IsConfigListenerEnabled i"
      and "resolveImage ctx w = (Inr img, w1)"
      and "call_Load ctx (GetConfigListenerName i) w1 = (r, w2)"
      and "(\<exists>e. r = Inl e)
           \<or> (\<exists>d. r = Inr d \<and>
                 GetContainer InfinispanListenerContainer (Template_Spec (Template (Spec d))) = None)
           \<or> (\<exists>d c. r = Inr d \<and>
                 GetContainer InfinispanListenerContainer (Template_Spec (Template (Spec d))) = Some c \<and>
                 Image c \<noteq> img)"
  shows "newCalls w2 (ConfigListener i ctx w) \<noteq> []
       \<and> ((\<exists>d. r = Inr d) \<longrightarrow>
            (\<forall>c \<in> set (map fst (newCalls w2 (ConfigListener i ctx w))).
               \<exists>obj. c = CallUpdate obj [RetryOnErr]))
       \<and> ((\<exists>e. r = Inl e) \<longrightarrow>
            (\<forall>c \<in> set (map fst (newCalls w2 (ConfigListener i ctx w))).
               \<exists>obj. c = CallCreate obj True [RetryOnErr]))
       \<and> ((\<exists>d. r = Inr d) \<and> (\<forall>obj s. fst (Update ctx obj [RetryOnErr] s) = None) \<longrightarrow>
            newCalls w2 (ConfigListener i ctx w) =
              [(CallUpdate (ServiceAccountObj (listenerServiceAccount i)) [RetryOnErr], None),
               (CallUpdate (RoleObj (listenerRole ctx i)) [RetryOnErr], None),
               (CallUpdate (RoleBindingObj (listenerRoleBinding i)) [RetryOnErr], None),
               (CallUpdate (DeploymentObj (listenerDeployment i img)) [RetryOnErr], None)])"
proof -
  have t: "case r of Inl e \<Rightarrow> True | Inr d \<Rightarrow> \<not> imageMatches d img"
    using assms(4) by (auto simp: imageMatches_def split: sum.splits)
  have eq: "ConfigListener i ctx w = syncBundle i ctx img (err_of r = None) w2"
    using assms(1,2,3) t by (rule ConfigListener_chain)
  note ff = syncBundle_failFast [of i ctx img "err_of r = None" w2]
  have a: "newCalls w2 (ConfigListener i ctx w) \<noteq> []"
    unfolding eq using ff by (rule failFast_nonempty)
  have b: "\<forall>c \<in> set (map fst (newCalls w2 (ConfigListener i ctx w))).
               \<exists>obj. c = CallUpdate obj [RetryOnErr]" if "\<exists>d. r = Inr d"
  proof -
    from that have ex: "err_of r = None" by (auto simp: err_of_def)
    have "set (map fst (newCalls w2 (ConfigListener i ctx w))) \<subseteq> set (chainCalls i ctx img True)"
      unfolding eq using failFast_subset [OF ff] by (simp add: ex)
    then show ?thesis by (blast dest: chainCalls_Update)
  qed
  have c: "\<forall>c \<in> set (map fst (newCalls w2 (ConfigListener i ctx w))).
               \<exists>obj. c = CallCreate obj True [RetryOnErr]" if "\<exists>e. r = Inl e"
  proof -
    from that have ex: "(err_of r = None) = False" by (auto simp: err_of_def)
    have "set (map fst (newCalls w2 (ConfigListener i ctx w))) \<subseteq> set (chainCalls i ctx img False)"
      unfolding eq using failFast_subset [OF ff] by (simp add: ex)
    then show ?thesis by (blast dest: chainCalls_Create)
  qed
  have d: "newCalls w2 (ConfigListener i ctx w) =
              [(CallUpdate (ServiceAccountObj (listenerServiceAccount i)) [RetryOnErr], None),
               (CallUpdate (RoleObj (listenerRole ctx i)) [RetryOnErr], None),
               (CallUpdate (RoleBindingObj (listenerRoleBinding i)) [RetryOnErr], None),
               (CallUpdate (DeploymentObj (listenerDeployment i img)) [RetryOnErr], None)]"
    if "\<exists>d. r = Inr d" and ok: "\<forall>obj s. fst (Update ctx obj [RetryOnErr] s) = None"
  proof -
    from that have ex: "err_of r = None" by (auto simp: err_of_def)
    show ?thesis
      unfolding eq ex using syncBundle_all_ok [of True ctx w2 i img] ok
      by (simp add: chainObjects_def writeCall_def)
  qed
  from a b c d show ?thesis by blast
qed

text \<open>
  C6 at a cluster whose deployment runs an older image (four Updates), and at an empty
  cluster (the chain starts with a Create).
\<close>

theorem C6_mode_follows_load_witness:
  "newCalls (record_call (CallLoad ''example-config-listener'') None (store staleWorld) staleWorld)
       (ConfigListener (exampleInfinispan True) exampleContext staleWorld) =
     [(CallUpdate (ServiceAccountObj (listenerServiceAccount (exampleInfinispan True))) [RetryOnErr], None),
      (CallUpdate (RoleObj (listenerRole exampleContext (exampleInfinispan True))) [RetryOnErr], None),
      (CallUpdate (RoleBindingObj (listenerRoleBinding (exampleInfinispan True))) [RetryOnErr], None),
      (CallUpdate (DeploymentObj (listenerDeployment (exampleInfinispan True) ''registry/listener:1''))
         [RetryOnErr], None)]
   \<and> (\<exists>obj. fst (hd
          (newCalls
             (record_call (CallLoad ''example-config-listener'')
                (Some (NotFound ''deployment'' ''example-config-listener'')) Map.empty
                (emptyWorld Map.empty))
             (ConfigListener (exampleInfinispan True) exampleContext (emptyWorld Map.empty)))) =
          CallCreate obj True [RetryOnErr])"
proof -
  let ?i = "exampleInfinispan True"
  let ?d = "runningDeployment ?i ''registry/listener:0'' (Some 1)"
  have l1: "call_Load exampleContext (GetConfigListenerName ?i) staleWorld =
     (Inr ?d, record_call (CallLoad ''example-config-listener'') None (store staleWorld) staleWorld)"
    using stale_load by (simp add: example_name)
  have t1: "(\<exists>e. (Inr ?d :: error + Deployment) = Inl e)
           \<or> (\<exists>d. (Inr ?d :: error + Deployment) = Inr d \<and>
                 GetContainer InfinispanListenerContainer (Template_Spec (Template (Spec d))) = None)
           \<or> (\<exists>d c. (Inr ?d :: error + Deployment) = Inr d \<and>
                 GetContainer InfinispanListenerContainer (Template_Spec (Template (Spec d))) = Some c \<and>
                 Image c \<noteq> ''registry/listener:1'')"
    by (simp add: running_container)
  have a: "newCalls (record_call (CallLoad ''example-config-listener'') None (store staleWorld) staleWorld)
       (ConfigListener ?i exampleContext staleWorld) =
     [(CallUpdate (ServiceAccountObj (listenerServiceAccount ?i)) [RetryOnErr], None),
      (CallUpdate (RoleObj (listenerRole exampleContext ?i)) [RetryOnErr], None),
      (CallUpdate (RoleBindingObj (listenerRoleBinding ?i)) [RetryOnErr], None),
      (CallUpdate (DeploymentObj (listenerDeployment ?i ''registry/listener:1'')) [RetryOnErr], None)]"
    using C6_mode_follows_load [OF example_enabled example_resolve l1 t1] example_writes_ok(1)
    by simp
  let ?e = "NotFound ''deployment'' ''example-config-listener''"
  have l2: "call_Load exampleContext (GetConfigListenerName ?i) (emptyWorld Map.empty) =
             (Inl ?e, record_call (CallLoad ''example-config-listener'') (Some ?e) Map.empty
                        (emptyWorld Map.empty))"
    using empty_load [OF example_Load] by (simp add: example_name)
  have t2: "(\<exists>e. (Inl ?e :: error + Deployment) = Inl e)
           \<or> (\<exists>d. (Inl ?e :: error + Deployment) = Inr d \<and>
                 GetContainer InfinispanListenerContainer (Template_Spec (Template (Spec d))) = None)
           \<or> (\<exists>d c. (Inl ?e :: error + Deployment) = Inr d \<and>
                 GetContainer InfinispanListenerContainer (Template_Spec (Template (Spec d))) = Some c \<and>
                 Image c \<noteq> ''registry/listener:1'')"
    by simp
  let ?t = "newCalls
             (record_call (CallLoad ''example-config-listener'') (Some ?e) Map.empty
                (emptyWorld Map.empty))
             (ConfigListener ?i exampleContext (emptyWorld Map.empty))"
  have ne: "?t \<noteq> []"
    and cr: "\<forall>c \<in> set (map fst ?t). \<exists>obj. c = CallCreate obj True [RetryOnErr]"
    using C6_mode_follows_load [OF example_enabled example_resolve l2 t2]
    by blast+
  from ne have "fst (hd ?t) \<in> set (map fst ?t)" by simp
  with cr have b: "\<exists>obj. fst (hd ?t) = CallCreate obj True [RetryOnErr]" by blast
  from a b show ?thesis ..
qed

text \<open>
  C7. With the feature enabled: a non-empty override is the image the rest of the
  invocation works with, as it is, and the operator's image is not looked up; with an
  empty override the operator's image is looked up, and when that lookup fails the
  invocation logs the error, requeues with it and ends, its only call being the lookup
  (no Load, Create, Update or Delete).
\<close>

theorem C7_image_resolution:
  assumes "IsConfigListenerEnabled i"
  shows "(ConfigListenerImageName ctx \<noteq> [] \<longrightarrow>
            ConfigListener i ctx w = reconcileListener i ctx (ConfigListenerImageName ctx) w
            \<and> CallGetOperatorImage \<notin> set (map fst (newCalls w (ConfigListener i ctx w)))
            \<and> (\<forall>d \<in> set (writtenDeployments (newCalls w (ConfigListener i ctx w))).
                  map Image (Containers (Template_Spec (Template (Spec d)))) =
                    [ConfigListenerImageName ctx]))
       \<and> (ConfigListenerImageName ctx = [] \<longrightarrow>
            (\<forall>err s. GetOperatorImage ctx (store w) = (Inl err, s) \<longrightarrow>
               ConfigListener i ctx w =
                 w\<lparr>store := s,
                   calls := calls w @ [(CallGetOperatorImage, Some err)],
                   logs := logs w @ [LogError err ''unable to create ConfigListener deployment''],
                   requeued := requeued w @ [err]\<rparr>)
            \<and> (\<forall>img s. GetOperatorImage ctx (store w) = (Inr img, s) \<longrightarrow>
               ConfigListener i ctx w =
                 reconcileListener i ctx img
                   (w\<lparr>store := s, calls := calls w @ [(CallGetOperatorImage, None)]\<rparr>)))"
proof -
  have a: "ConfigListener i ctx w = reconcileListener i ctx (ConfigListenerImageName ctx) w
            \<and> CallGetOperatorImage \<notin> set (map fst (newCalls w (ConfigListener i ctx w)))
            \<and> (\<forall>d \<in> set (writtenDeployments (newCalls w (ConfigListener i ctx w))).
                  map Image (Containers (Template_Spec (Template (Spec d)))) =
                    [ConfigListenerImageName ctx])"
    if ne: "ConfigListenerImageName ctx \<noteq> []"
  proof -
    have res: "resolveImage ctx w = (Inr (ConfigListenerImageName ctx), w)"
      using ne by (simp add: resolveImage_def)
    have eq: "ConfigListener i ctx w = reconcileListener i ctx (ConfigListenerImageName ctx) w"
      using assms res by (rule ConfigListener_resolved)
    obtain t where t: "calls (reconcileListener i ctx (ConfigListenerImageName ctx) w) = calls w @ t"
      "set (writtenDeployments t) \<subseteq> {listenerDeployment i (ConfigListenerImageName ctx)}"
      "CallGetOperatorImage \<notin> set (map fst t)"
      using reconcileListener_written [of i ctx "ConfigListenerImageName ctx" w] by blast
    have n: "newCalls w (ConfigListener i ctx w) = t"
      unfolding eq using t(1) by (rule newCalls_append)
    have "map Image (Containers (Template_Spec (Template (Spec d)))) = [ConfigListenerImageName ctx]"
      if "d \<in> set (writtenDeployments t)" for d
    proof -
      from that t(2) have "d = listenerDeployment i (ConfigListenerImageName ctx)" by blast
      then show ?thesis by (simp add: listenerDeployment_def)
    qed
    with eq n t(3) show ?thesis by simp
  qed
  have b: "ConfigListener i ctx w =
                 w\<lparr>store := s,
                   calls := calls w @ [(CallGetOperatorImage, Some err)],
                   logs := logs w @ [LogError err ''unable to create ConfigListener deployment''],
                   requeued := requeued w @ [err]\<rparr>"
    if "ConfigListenerImageName ctx = []" and "GetOperatorImage ctx (store w) = (Inl err, s)"
    for err s
    using assms that
    by (simp add: ConfigListener_def resolveImage_def call_GetOperatorImage_def record_call_def
        err_of_def Requeue_def Log_Error_def)
  have c: "ConfigListener i ctx w =
                 reconcileListener i ctx img
                   (w\<lparr>store := s, calls := calls w @ [(CallGetOperatorImage, None)]\<rparr>)"
    if "ConfigListenerImageName ctx = []" and "GetOperatorImage ctx (store w) = (Inr img, s)"
    for img s
    using assms that
    by (simp add: ConfigListener_def resolveImage_def call_GetOperatorImage_def record_call_def
        err_of_def)
  from a b c show ?thesis by blast
qed

text \<open>
  C7 at a context with an override (no lookup is made), and at one with no override whose
  image lookup fails (the invocation ends after the lookup).
\<close>

theorem C7_image_resolution_witness:
  "CallGetOperatorImage \<notin> set (map fst (newCalls (emptyWorld Map.empty)
       (ConfigListener (exampleInfinispan True) exampleContext (emptyWorld Map.empty))))
   \<and> ConfigListener (exampleInfinispan True) lookupFailsContext (emptyWorld Map.empty) =
       \<lparr>store = Map.empty,
        calls = [(CallGetOperatorImage, Some (OtherError ''operator pod not found''))],
        logs = [LogError (OtherError ''operator pod not found'')
                  ''unable to create ConfigListener deployment''],
        requeued = [OtherError ''operator pod not found'']\<rparr>"
proof -
  have o: "ConfigListenerImageName exampleContext \<noteq> []"
    by (simp add: exampleContext_def memContext_def)
  have a: "CallGetOperatorImage \<notin> set (map fst (newCalls (emptyWorld Map.empty)
       (ConfigListener (exampleInfinispan True) exampleContext (emptyWorld Map.empty))))"
    using C7_image_resolution [OF example_enabled, of exampleContext "emptyWorld Map.empty"] o
    by blast
  have e: "ConfigListenerImageName lookupFailsContext = []"
    by (simp add: lookupFailsContext_def memContext_def)
  have g: "GetOperatorImage lookupFailsContext (store (emptyWorld (Map.empty :: cluster))) =
             (Inl (OtherError ''operator pod not found''), Map.empty)"
    by (simp add: lookupFailsContext_def memContext_def emptyWorld_def)
  have b: "ConfigListener (exampleInfinispan True) lookupFailsContext (emptyWorld Map.empty) =
       \<lparr>store = Map.empty,
        calls = [(CallGetOperatorImage, Some (OtherError ''operator pod not found''))],
        logs = [LogError (OtherError ''operator pod not found'')
                  ''unable to create ConfigListener deployment''],
        requeued = [OtherError ''operator pod not found'']\<rparr>"
    using C7_image_resolution [OF example_enabled, of lookupFailsContext "emptyWorld Map.empty"] e g
    by (simp add: emptyWorld_def)
  from a b show ?thesis ..
qed

text \<open>
  C8. Every deployment that an invocation hands to Create or Update has exactly one
  container, and its arguments are listener, -namespace, the parent's namespace,
  -cluster, the parent's name, in that order.
\<close>

theorem C8_listener_args:
  "\<forall>d \<in> set (writtenDeployments (newCalls w (ConfigListener i ctx w))).
     \<exists>c. Containers (Template_Spec (Template (Spec d))) = [c] \<and>
         Args c = [''listener'', ''-namespace'', Namespace (Infinispan_ObjectMeta i),
                   ''-cluster'', Name (Infinispan_ObjectMeta i)]"
proof
  fix d
  assume "d \<in> set (writtenDeployments (newCalls w (ConfigListener i ctx w)))"
  then obtain img where "d = listenerDeployment i img"
    using ConfigListener_written [of i ctx w] by blast
  then show "\<exists>c. Containers (Template_Spec (Template (Spec d))) = [c] \<and>
         Args c = [''listener'', ''-namespace'', Namespace (Infinispan_ObjectMeta i),
                   ''-cluster'', Name (Infinispan_ObjectMeta i)]"
    by (simp add: listenerDeployment_def)
qed

text \<open>C8 at the deployment created on an empty cluster.\<close>

theorem C8_listener_args_witness:
  "\<exists>c. Containers (Template_Spec (Template (Spec
          (listenerDeployment (exampleInfinispan True) ''registry/listener:1'')))) = [c] \<and>
       Args c = [''listener'', ''-namespace'', ''ns'', ''-cluster'', ''example'']"
proof -
  have "listenerDeployment (exampleInfinispan True) ''registry/listener:1''
          \<in> set (writtenDeployments (newCalls (emptyWorld Map.empty)
                (ConfigListener (exampleInfinispan True) exampleContext (emptyWorld Map.empty))))"
    unfolding example_create_run by simp
  with C8_listener_args [of "emptyWorld Map.empty" "exampleInfinispan True" exampleContext]
  show ?thesis
    by (auto simp: exampleInfinispan_def)
qed

text \<open>
  C9. With the feature enabled, the deployment loaded, its listener container on the
  resolved image and its replica count unset (nil), the invocation stops right after the
  Load: the scale operation is not called. And every deployment that an invocation hands
  to Create or Update has its replica count unset.
\<close>

theorem C9_nil_replicas:
  "(IsConfigListenerEnabled i \<and> resolveImage ctx w = (Inr img, w1) \<and>
    call_Load ctx (GetConfigListenerName i) w1 = (Inr deployment, w2) \<and>
    GetContainer InfinispanListenerContainer (Template_Spec (Template (Spec deployment))) = Some c \<and>
    Image c = img \<and> Replicas (Spec deployment) = None \<longrightarrow>
      ConfigListener i ctx w = w2 \<and>
      map fst (newCalls w (ConfigListener i ctx w)) =
        (if ConfigListenerImageName ctx = [] then [CallGetOperatorImage] else []) @
        [CallLoad (GetConfigListenerName i)])
   \<and> (\<forall>d \<in> set (writtenDeployments (newCalls w (ConfigListener i ctx w))).
         Replicas (Spec d) = None)"
proof -
  have a: "ConfigListener i ctx w = w2 \<and>
      map fst (newCalls w (ConfigListener i ctx w)) =
        (if ConfigListenerImageName ctx = [] then [CallGetOperatorImage] else []) @
        [CallLoad (GetConfigListenerName i)]"
    if e: "IsConfigListenerEnabled i" and r: "resolveImage ctx w = (Inr img, w1)"
      and l: "call_Load ctx (GetConfigListenerName i) w1 = (Inr deployment, w2)"
      and g: "GetContainer InfinispanListenerContainer (Template_Spec (Template (Spec deployment))) = Some c"
      and im: "Image c = img" and n: "Replicas (Spec deployment) = None"
  proof -
    have m: "imageMatches deployment img" using g im by (rule GetContainer_imageMatches)
    have eq: "ConfigListener i ctx w = w2"
      using ConfigListener_fast [OF e r l m] n by simp
    have "calls w2 = calls w @
        (if ConfigListenerImageName ctx = [] then [(CallGetOperatorImage, None)] else []) @
        [(CallLoad (GetConfigListenerName i), None)]"
      using resolveImage_calls [OF r] call_Load_calls [OF l] by (simp add: err_of_def)
    then show ?thesis unfolding eq by (simp add: newCalls_def)
  qed
  have b: "Replicas (Spec d) = None"
    if "d \<in> set (writtenDeployments (newCalls w (ConfigListener i ctx w)))" for d
  proof -
    from that obtain img' where "d = listenerDeployment i img'"
      using ConfigListener_written [of i ctx w] by blast
    then show ?thesis by (simp add: listenerDeployment_def)
  qed
  from a b show ?thesis by blast
qed

text \<open>
  C9 at a cluster whose deployment runs the wanted image with no replica count, and at
  the deployment created on an empty cluster.
\<close>

theorem C9_nil_replicas_witness:
  "ConfigListener (exampleInfinispan True) exampleContext (exampleWorld None) =
     record_call (CallLoad ''example-config-listener'') None (store (exampleWorld None))
       (exampleWorld None)
   \<and> Replicas (Spec (listenerDeployment (exampleInfinispan True) ''registry/listener:1'')) = None"
proof -
  let ?i = "exampleInfinispan True"
  have l: "call_Load exampleContext (GetConfigListenerName ?i) (exampleWorld None) =
     (Inr (runningDeployment ?i ''registry/listener:1'' None),
      record_call (CallLoad ''example-config-listener'') None (store (exampleWorld None))
        (exampleWorld None))"
    using example_load by (simp add: example_name)
  have a: "ConfigListener ?i exampleContext (exampleWorld None) =
     record_call (CallLoad ''example-config-listener'') None (store (exampleWorld None))
       (exampleWorld None)"
    using C9_nil_replicas [of ?i exampleContext "exampleWorld None" "''registry/listener:1''"
        "exampleWorld None" "runningDeployment ?i ''registry/listener:1'' None"
        "record_call (CallLoad ''example-config-listener'') None (store (exampleWorld None))
           (exampleWorld None)"
        "\<lparr>Container_Name = InfinispanListenerContainer, Image = ''registry/listener:1'',
          Args = [''listener'', ''-namespace'', Namespace (Infinispan_ObjectMeta ?i),
                  ''-cluster'', Name (Infinispan_ObjectMeta ?i)]\<rparr>"]
      example_enabled example_resolve l running_container
    by (simp add: running_replicas)
  have m: "listenerDeployment ?i ''registry/listener:1''
          \<in> set (writtenDeployments (newCalls (emptyWorld Map.empty)
                (ConfigListener ?i exampleContext (emptyWorld Map.empty))))"
    unfolding example_create_run by simp
  have b: "Replicas (Spec (listenerDeployment ?i ''registry/listener:1'')) = None"
    using C9_nil_replicas [of ?i exampleContext "emptyWorld Map.empty"] m by blast
  from a b show ?thesis ..
qed

text \<open>
  C10. Whatever error the Load returns (NotFound or any other), the invocation goes on
  with the chain in Create mode: the first call after the Load is the Create of the
  ServiceAccount, the calls are the first steps of the four Creates, nothing is requeued
  and nothing is logged.
\<close>

theorem C10_load_error_is_absent:
  assumes "IsConfigListenerEnabled i"
      and "resolveImage ctx w = (Inr img, w1)"
      and "call_Load ctx (GetConfigListenerName i) w1 = (Inl e, w2)"
  shows "failFast (chainCalls i ctx img False) (newCalls w2 (ConfigListener i ctx w))
       \<and> chainCalls i ctx img False =
           [CallCreate (ServiceAccountObj (listenerServiceAccount i)) True [RetryOnErr],
            CallCreate (RoleObj (listenerRole ctx i)) True [RetryOnErr],
            CallCreate (RoleBindingObj (listenerRoleBinding i)) True [RetryOnErr],
            CallCreate (DeploymentObj (listenerDeployment i img)) True [RetryOnErr]]
       \<and> fst (hd (newCalls w2 (ConfigListener i ctx w))) =
           CallCreate (ServiceAccountObj (listenerServiceAccount i)) True [RetryOnErr]
       \<and> calls (ConfigListener i ctx w) =
           calls w1 @ (CallLoad (GetConfigListenerName i), Some e) # newCalls w2 (ConfigListener i ctx w)
       \<and> logs (ConfigListener i ctx w) = logs w
       \<and> requeued (ConfigListener i ctx w) = requeued w"
proof -
  have t: "case (Inl e :: error + Deployment) of Inl e \<Rightarrow> True | Inr d \<Rightarrow> \<not> imageMatches d img"
    by simp
  have eq: "ConfigListener i ctx w = syncBundle i ctx img False w2"
    using ConfigListener_chain [OF assms t] by (simp add: err_of_def)
  note cs = syncBundle_cases [of i ctx img False w2]
  note ff = syncBundle_failFast [of i ctx img False w2]
  note c1 = resolveImage_calls [OF assms(2)]
  note c2 = call_Load_calls [OF assms(3)]
  have hd: "fst (hd (newCalls w2 (syncBundle i ctx img False w2))) =
           CallCreate (ServiceAccountObj (listenerServiceAccount i)) True [RetryOnErr]"
    using cs by (auto simp: writeCall_def)
  have cc: "chainCalls i ctx img False =
           [CallCreate (ServiceAccountObj (listenerServiceAccount i)) True [RetryOnErr],
            CallCreate (RoleObj (listenerRole ctx i)) True [RetryOnErr],
            CallCreate (RoleBindingObj (listenerRoleBinding i)) True [RetryOnErr],
            CallCreate (DeploymentObj (listenerDeployment i img)) True [RetryOnErr]]"
    by (simp add: chainCalls_def chainObjects_def writeCall_def)
  have calls: "calls (syncBundle i ctx img False w2) =
           calls w1 @ (CallLoad (GetConfigListenerName i), Some e) # newCalls w2 (syncBundle i ctx img False w2)"
    using cs c2 by (simp add: err_of_def)
  have lr: "logs (syncBundle i ctx img False w2) = logs w"
    "requeued (syncBundle i ctx img False w2) = requeued w"
    using cs c1 c2 by simp_all
  show ?thesis
    unfolding eq using ff cc hd calls lr by simp
qed

text \<open>
  C10 at a store whose Load fails with a connection error.
\<close>

theorem C10_load_error_is_absent_witness:
  "fst (hd (newCalls
        (record_call (CallLoad ''example-config-listener'')
           (Some (OtherError ''connection refused'')) Map.empty (emptyWorld Map.empty))
        (ConfigListener (exampleInfinispan True) unreachableContext (emptyWorld Map.empty)))) =
     CallCreate (ServiceAccountObj (listenerServiceAccount (exampleInfinispan True))) True [RetryOnErr]
   \<and> requeued (ConfigListener (exampleInfinispan True) unreachableContext (emptyWorld Map.empty)) = []"
proof -
  have l: "call_Load unreachableContext (GetConfigListenerName (exampleInfinispan True))
             (emptyWorld Map.empty) =
           (Inl (OtherError ''connection refused''),
            record_call (CallLoad ''example-config-listener'')
              (Some (OtherError ''connection refused'')) Map.empty (emptyWorld Map.empty))"
    using unreachable_load [of "''example-config-listener''" "emptyWorld Map.empty"]
    by (simp add: example_name emptyWorld_def)
  show ?thesis
    using C10_load_error_is_absent [OF example_enabled unreachable_resolve l]
    by (simp add: emptyWorld_def)
qed

end
